theory Spec2Isabelle
  imports Main "HOL-Library.Sublist"
begin

section \<open>Data model\<close>

text \<open>
  A Go \<^verbatim>\<open>error\<close> is represented by its message (\<^verbatim>\<open>err.Error()\<close>); \<^verbatim>\<open>nil\<close> is
  \<open>None\<close>.  A \<^verbatim>\<open>time.Duration\<close> is a number of nanoseconds.  Logging and printing
  (\<^verbatim>\<open>i.log\<close>, \<^verbatim>\<open>fmt.Println\<close>) have no effect on the control flow and are left out.
\<close>

type_synonym error = string
type_synonym Duration = int

definition Second :: Duration where
  "Second = 1000000000"

definition Minute :: Duration where
  "Minute = 60 * Second"

text \<open>Modelled from the spec: \<^verbatim>\<open>models.HostStage\<close>, the enumerated lifecycle tag of section 3.\<close>

datatype HostStage =
    HostStageStartingInstallation
  | HostStageInstalling
  | HostStageWritingImageToDisk
  | HostStageWaitingForControlPlane
  | HostStageWaitingForBootkube
  | HostStageWaitingForController
  | HostStageWaitingForIgnition
  | HostStageConfiguring
  | HostStageJoined
  | HostStageRebooting
  | HostStageDone
  | HostStageFailed

text \<open>Modelled from the spec: \<^verbatim>\<open>models.OperatorStatus\<close>, status {progressing, available, failed}.\<close>

datatype OperatorStatus =
    OperatorStatusProgressing
  | OperatorStatusAvailable
  | OperatorStatusFailed

text \<open>
  \<^verbatim>\<open>configv1.ClusterOperatorStatusCondition\<close>: the condition type and the condition status
  are Go string types; the constants are those of the OpenShift API.
\<close>

record ClusterOperatorStatusCondition =
  Type :: string
  Status :: string
  Message :: string

definition OperatorAvailable :: string where "OperatorAvailable = ''Available''"
definition OperatorProgressing :: string where "OperatorProgressing = ''Progressing''"
definition OperatorDegraded :: string where "OperatorDegraded = ''Degraded''"
definition ConditionTrue :: string where "ConditionTrue = ''True''"
definition ConditionFalse :: string where "ConditionFalse = ''False''"
definition CSVPhaseSucceeded :: string where "CSVPhaseSucceeded = ''Succeeded''"
definition CSVPhaseFailed :: string where "CSVPhaseFailed = ''Failed''"

section \<open>utils: operator status\<close>

definition CsvStatusToOperatorStatus :: "string \<Rightarrow> OperatorStatus" where
  "CsvStatusToOperatorStatus csvStatus =
     (if csvStatus = CSVPhaseSucceeded then OperatorStatusAvailable
      else if csvStatus = CSVPhaseFailed then OperatorStatusFailed
      else OperatorStatusProgressing)"

fun ClusterOperatorConditionsToMonitoredOperatorStatus ::
  "ClusterOperatorStatusCondition list \<Rightarrow> OperatorStatus \<times> string" where
  "ClusterOperatorConditionsToMonitoredOperatorStatus [] = (OperatorStatusProgressing, [])"
| "ClusterOperatorConditionsToMonitoredOperatorStatus (condition # conditions) =
     (if Type condition = OperatorAvailable \<and> Status condition = ConditionTrue
        then (OperatorStatusAvailable, Message condition)
      else if Type condition = OperatorProgressing \<and> Status condition = ConditionTrue
        then (OperatorStatusProgressing, Message condition)
      else if Type condition = OperatorDegraded \<and> Status condition = ConditionTrue
        then (OperatorStatusFailed, Message condition)
      else ClusterOperatorConditionsToMonitoredOperatorStatus conditions)"

section \<open>Configuration, inventory and cluster data\<close>

text \<open>
  \<^verbatim>\<open>config.Config\<close>, embedded in the installer; the fields are those the installer reads.
\<close>

record Config =
  Role :: string
  ClusterID :: string
  InfraEnvID :: string
  HostID :: string
  Device :: string
  URL :: string
  OpenshiftVersion :: string
  MCOImage :: string
  HighAvailabilityMode :: string
  InstallerArgs :: "string list"
  DisksToFormat :: "string list"
  PullSecretToken :: string
  SkipCertVerification :: bool
  CACertPath :: string
  SkipInstallationDiskCleanup :: bool
  DryRunEnabled :: bool
  FakeRebootMarkerPath :: string

definition HostRoleBootstrap :: string where "HostRoleBootstrap = ''bootstrap''"
definition HostRoleMaster :: string where "HostRoleMaster = ''master''"
definition HostRoleWorker :: string where "HostRoleWorker = ''worker''"
definition ClusterHighAvailabilityModeNone :: string where "ClusterHighAvailabilityModeNone = ''None''"
definition ClusterKindAddHostsCluster :: string where "ClusterKindAddHostsCluster = ''AddHostsCluster''"
definition LogsStateRequested :: string where "LogsStateRequested = ''requested''"

text \<open>
  Modelled from the spec: \<^verbatim>\<open>models.Host\<close> (ClusterHost of section 3: infra-env id, host id,
  current stage), \<^verbatim>\<open>inventory_client.HostData\<close> and \<^verbatim>\<open>models.Cluster\<close>, of which the
  installer reads the kind only (a \<^verbatim>\<open>*string\<close>).
\<close>

record Host =
  Host_ID :: string
  Host_InfraEnvID :: string
  Progress_CurrentStage :: HostStage

record HostData =
  HostData_Host :: Host
  HostData_IPs :: "string list"

record Cluster =
  Kind :: "string option"

definition StringValue :: "string option \<Rightarrow> string" where
  "StringValue v = (case v of None \<Rightarrow> [] | Some s \<Rightarrow> s)"

text \<open>
  \<^verbatim>\<open>v1.Node\<close> (name, status conditions as type and status, addresses) and \<^verbatim>\<open>v1.Event\<close>.
\<close>

record Node =
  Node_Name :: string
  Node_Conditions :: "(string \<times> string) list"
  Node_Addresses :: "string list"

record Event =
  Event_UID :: string
  Event_Name :: string
  Event_Message :: string

text \<open>
  The ignition \<^verbatim>\<open>types.Config\<close>: the \<^verbatim>\<open>Ignition\<close> section with its nested \<^verbatim>\<open>Config\<close>
  (merge and replace references), and the sections that carry the host-specific overrides.
\<close>

record IgnitionConfig =
  Merge :: "string list"
  Replace :: "string option"

record Ignition =
  Config :: IgnitionConfig
  Version :: string

record types_Config =
  Ignition :: Ignition
  Storage_Files :: "(string \<times> string) list"
  Systemd_Units :: "string list"
  Passwd_Users :: "string list"

text \<open>\<^verbatim>\<open>version.Version\<close> of the go-version library.\<close>

record Version =
  segments :: "int list"
  pre :: string
  metadata :: string

section \<open>The environment: calls, responses, history\<close>

text \<open>
  The installer talks to four collaborators (OS operations, the inventory client, the
  cluster API client, the ignition utility) and to the Go runtime (sleep, \<^verbatim>\<open>select\<close>).
  Each call is recorded with its response in a history; what a call returns is given by
  the environment as a function of the history so far and of the call, so that any
  behaviour of the collaborators is an environment.
\<close>

datatype chan = Ch_CtxDone | Ch_Timer Duration | Ch_Ticker Duration | Ch_After Duration

datatype call =
    Ops_FormatDisk string
  | Ops_EvaluateDiskSymlink string
  | Ops_Mkdir string
  | Ops_WriteImageToDisk string string "string list"
  | Ops_SetBootOrder string
  | Ops_UploadInstallationLogs bool
  | Ops_ExecPrivilegeCommand string "string list"
  | Ops_SystemctlAction string "string list"
  | Ops_Reboot
  | Ops_ExtractFromIgnition string string
  | Ops_CreateOpenshiftSshManifest string string string
  | Ops_PrepareController
  | Ops_GetVGByPV string
  | Ops_RemoveVG string
  | Ops_RemovePV string
  | Ops_IsRaidMember string
  | Ops_GetRaidDevices string
  | Ops_CleanRaidMembership string
  | Ops_Wipefs string
  | Ops_ReloadHostFile string
  | Ops_GetHostname
  | Ops_CreateRandomHostname string
  | Inv_CreateInventoryClientWithDelay string string string bool string
  | Inv_UpdateHostInstallProgress string string HostStage string
  | Inv_DownloadFile string string
  | Inv_DownloadHostIgnition string string string
  | Inv_HostLogProgressReport string string string
  | Inv_ClusterLogProgressReport string string
  | Inv_GetCluster bool
  | Inv_ListsHostsForRole string
  | Inv_GetEnabledHostsNamesHosts
  | K8s_Builder string
  | K8s_GetNetworkType
  | K8s_GetControlPlaneReplicas
  | K8s_PatchControlPlaneReplicas
  | K8s_UnPatchControlPlaneReplicas
  | K8s_PatchEtcd
  | K8s_ListMasterNodes
  | K8s_ListEvents string
  | Common_GetPodInStatus string string
  | Common_UploadPodLogs string string string
  | Ign_ParseIgnitionFile string
  | Ign_MergeIgnitionConfig types_Config types_Config
  | Ign_WriteIgnitionFile string types_Config
  | Time_Sleep Duration
  | Uuid_New
  | Select "chan list"

datatype resp =
    R_unit
  | R_err "error option"
  | R_str string
  | R_bool bool
  | R_str_err string "error option"
  | R_str_res "error + string"
  | R_int_res "error + int"
  | R_strs_res "error + string list"
  | R_cluster "error + Cluster"
  | R_hosts "error + Host list"
  | R_hostsmap "error + (string \<times> HostData) list"
  | R_nodes "error + Node list"
  | R_events "error + Event list"
  | R_config "error + types_Config"
  | R_pod "string option"
  | R_chan chan

type_synonym history = "(call \<times> resp) list"

text \<open>
  The environment.  The first group gives the responses; the second the pure functions and
  constants of packages that are not part of the installer file: the go-version library,
  \<^verbatim>\<open>filepath.Join\<close>, the helpers of package \<^verbatim>\<open>common\<close>, the constants of the sibling files
  of package \<^verbatim>\<open>installer\<close> and of package \<^verbatim>\<open>ignition\<close>.
\<close>

record env =
  err_r :: "history \<Rightarrow> call \<Rightarrow> error option"
  str_r :: "history \<Rightarrow> call \<Rightarrow> string"
  bool_r :: "history \<Rightarrow> call \<Rightarrow> bool"
  int_r :: "history \<Rightarrow> call \<Rightarrow> int"
  nat_r :: "history \<Rightarrow> call \<Rightarrow> nat"
  strs_r :: "history \<Rightarrow> call \<Rightarrow> string list"
  cluster_r :: "history \<Rightarrow> call \<Rightarrow> Cluster"
  hosts_r :: "history \<Rightarrow> call \<Rightarrow> Host list"
  hostsmap_r :: "history \<Rightarrow> call \<Rightarrow> (string \<times> HostData) list"
  nodes_r :: "history \<Rightarrow> call \<Rightarrow> Node list"
  events_r :: "history \<Rightarrow> call \<Rightarrow> Event list"
  config_r :: "history \<Rightarrow> call \<Rightarrow> types_Config"
  pod_r :: "history \<Rightarrow> call \<Rightarrow> string option"
  version_NewVersion :: "string \<Rightarrow> error + Version"
  version_LessThan :: "Version \<Rightarrow> Version \<Rightarrow> bool"
  filepath_Join :: "string \<Rightarrow> string \<Rightarrow> string"
  common_IsK8sNodeIsReady :: "Node \<Rightarrow> bool"
  common_BuildHostsMapIPAddressBased :: "(string \<times> HostData) list \<Rightarrow> (string \<times> HostData) list"
  common_HostMatchByNameOrIPAddress ::
    "Node \<Rightarrow> (string \<times> HostData) list \<Rightarrow> (string \<times> HostData) list \<Rightarrow> HostData option"
  common_AssistedControllerIsReadyEvent :: string
  common_AssistedControllerPrefix :: string
  sshDir :: string
  sshKeyPath :: string
  sshPubKeyPath :: string
  assistedInstallerSshManifest :: string
  sshManifestTmpl :: string
  EmptyIgnitionConfig :: IgnitionConfig

definition result :: "error option \<Rightarrow> 'a \<Rightarrow> error + 'a" where
  "result e v = (case e of Some m \<Rightarrow> Inl m | None \<Rightarrow> Inr v)"

definition call_unit :: "call \<Rightarrow> history \<Rightarrow> history" where
  "call_unit c h = h @ [(c, R_unit)]"

definition call_err :: "env \<Rightarrow> call \<Rightarrow> history \<Rightarrow> error option \<times> history" where
  "call_err env c h = (let r = err_r env h c in (r, h @ [(c, R_err r)]))"

definition call_str :: "env \<Rightarrow> call \<Rightarrow> history \<Rightarrow> string \<times> history" where
  "call_str env c h = (let r = str_r env h c in (r, h @ [(c, R_str r)]))"

definition call_bool :: "env \<Rightarrow> call \<Rightarrow> history \<Rightarrow> bool \<times> history" where
  "call_bool env c h = (let r = bool_r env h c in (r, h @ [(c, R_bool r)]))"

definition call_str_err :: "env \<Rightarrow> call \<Rightarrow> history \<Rightarrow> (string \<times> error option) \<times> history" where
  "call_str_err env c h =
     (let s = str_r env h c; r = err_r env h c in ((s, r), h @ [(c, R_str_err s r)]))"

definition call_str_res :: "env \<Rightarrow> call \<Rightarrow> history \<Rightarrow> (error + string) \<times> history" where
  "call_str_res env c h =
     (let r = result (err_r env h c) (str_r env h c) in (r, h @ [(c, R_str_res r)]))"

definition call_int_res :: "env \<Rightarrow> call \<Rightarrow> history \<Rightarrow> (error + int) \<times> history" where
  "call_int_res env c h =
     (let r = result (err_r env h c) (int_r env h c) in (r, h @ [(c, R_int_res r)]))"

definition call_strs_res :: "env \<Rightarrow> call \<Rightarrow> history \<Rightarrow> (error + string list) \<times> history" where
  "call_strs_res env c h =
     (let r = result (err_r env h c) (strs_r env h c) in (r, h @ [(c, R_strs_res r)]))"

definition call_cluster :: "env \<Rightarrow> call \<Rightarrow> history \<Rightarrow> (error + Cluster) \<times> history" where
  "call_cluster env c h =
     (let r = result (err_r env h c) (cluster_r env h c) in (r, h @ [(c, R_cluster r)]))"

definition call_hosts :: "env \<Rightarrow> call \<Rightarrow> history \<Rightarrow> (error + Host list) \<times> history" where
  "call_hosts env c h =
     (let r = result (err_r env h c) (hosts_r env h c) in (r, h @ [(c, R_hosts r)]))"

definition call_hostsmap ::
  "env \<Rightarrow> call \<Rightarrow> history \<Rightarrow> (error + (string \<times> HostData) list) \<times> history" where
  "call_hostsmap env c h =
     (let r = result (err_r env h c) (hostsmap_r env h c) in (r, h @ [(c, R_hostsmap r)]))"

definition call_nodes :: "env \<Rightarrow> call \<Rightarrow> history \<Rightarrow> (error + Node list) \<times> history" where
  "call_nodes env c h =
     (let r = result (err_r env h c) (nodes_r env h c) in (r, h @ [(c, R_nodes r)]))"

definition call_events :: "env \<Rightarrow> call \<Rightarrow> history \<Rightarrow> (error + Event list) \<times> history" where
  "call_events env c h =
     (let r = result (err_r env h c) (events_r env h c) in (r, h @ [(c, R_events r)]))"

definition call_config :: "env \<Rightarrow> call \<Rightarrow> history \<Rightarrow> (error + types_Config) \<times> history" where
  "call_config env c h =
     (let r = result (err_r env h c) (config_r env h c) in (r, h @ [(c, R_config r)]))"

definition call_pod :: "env \<Rightarrow> call \<Rightarrow> history \<Rightarrow> string option \<times> history" where
  "call_pod env c h = (let r = pod_r env h c in (r, h @ [(c, R_pod r)]))"

text \<open>
  A \<^verbatim>\<open>select\<close> over the channels \<open>chans\<close> (never empty here): the environment picks the
  case that is taken.  A context is either one that nobody cancels while the call runs
  (\<^verbatim>\<open>context.Background()\<close>, \<^verbatim>\<open>context.TODO()\<close>, and the context of \<^verbatim>\<open>InstallNode\<close>,
  whose \<^verbatim>\<open>cancel\<close> is deferred to the return of \<^verbatim>\<open>InstallNode\<close>), or one that may be done.
\<close>

datatype Context = NeverDone | MayBeDone

definition ctx_chans :: "Context \<Rightarrow> chan list" where
  "ctx_chans ctx = (case ctx of NeverDone \<Rightarrow> [] | MayBeDone \<Rightarrow> [Ch_CtxDone])"

definition select_case :: "env \<Rightarrow> chan list \<Rightarrow> history \<Rightarrow> chan \<times> history" where
  "select_case env chans h =
     (let c = chans ! (nat_r env h (Select chans) mod length chans)
      in (c, h @ [(Select chans, R_chan c)]))"

definition ctx_Err :: error where
  "ctx_Err = ''context canceled''"

section \<open>Constants of the installer\<close>

definition InstallDir :: string where "InstallDir = ''/opt/install-dir''"
definition KubeconfigPath :: string where "KubeconfigPath = ''/opt/openshift/auth/kubeconfig''"
definition minMasterNodes :: int where "minMasterNodes = 2"
definition dockerConfigFile :: string where "dockerConfigFile = ''/root/.docker/config.json''"
definition assistedControllerNamespace :: string where "assistedControllerNamespace = ''assisted-installer''"
definition extractRetryCount :: nat where "extractRetryCount = 3"
definition waitForeverTimeout :: Duration where "waitForeverTimeout = 2 ^ 63 - 1"
definition ovnKubernetes :: string where "ovnKubernetes = ''OVNKubernetes''"
definition numMasterNodes :: int where "numMasterNodes = 3"
definition singleNodeMasterIgnitionPath :: string where
  "singleNodeMasterIgnitionPath = ''/opt/openshift/master.ign''"
definition waitingForMastersStatusInfo :: string where
  "waitingForMastersStatusInfo = ''Waiting for masters to join bootstrap control plane''"
definition waitingForBootstrapToPrepare :: string where
  "waitingForBootstrapToPrepare = ''Waiting for bootstrap node preparation''"
definition generalWaitInterval :: Duration where "generalWaitInterval = 5 * Second"

section \<open>utils: Retry, WaitForPredicate, versions\<close>

text \<open>
  \<^verbatim>\<open>%d\<close> of \<^verbatim>\<open>fmt\<close> for an \<^verbatim>\<open>int\<close>.
\<close>

function string_of_nat :: "nat \<Rightarrow> string" where
  "string_of_nat n =
     (if n < 10 then [''0123456789'' ! n]
      else string_of_nat (n div 10) @ [''0123456789'' ! (n mod 10)])"
  by pat_completeness auto
termination
  by (relation "measure id") auto

definition string_of_int :: "int \<Rightarrow> string" where
  "string_of_int k = (if k < 0 then ''-'' @ string_of_nat (nat (- k)) else string_of_nat (nat k))"

text \<open>
  A Go \<^verbatim>\<open>int\<close> has 64 bits: \<open>wrap64\<close> is the value a 64-bit signed integer holds after
  an operation whose mathematical result is \<open>k\<close>.
\<close>

definition wrap64 :: "int \<Rightarrow> int" where
  "wrap64 k = (k + 2 ^ 63) mod 2 ^ 64 - 2 ^ 63"

text \<open>
  \<^verbatim>\<open>Retry\<close>: the loop \<^verbatim>\<open>for i := 0; i < attempts-1; i++\<close>, followed by the last call.
  \<open>Retry_from\<close> is the state of the loop at counter \<open>i\<close>; the counter stays below the
  bound, so \<^verbatim>\<open>i++\<close> does not wrap.  The function argument \<open>f\<close> is a closure with effects:
  it takes the history and returns its error with the new history.
\<close>

function Retry_from ::
  "int \<Rightarrow> int \<Rightarrow> Duration \<Rightarrow> (history \<Rightarrow> error option \<times> history) \<Rightarrow> history
     \<Rightarrow> error option \<times> history" where
  "Retry_from i attempts sleep f h =
     (if i < wrap64 (attempts - 1) then
        (case f h of
           (None, h1) \<Rightarrow> (None, h1)
         | (Some e, h1) \<Rightarrow> Retry_from (i + 1) attempts sleep f (call_unit (Time_Sleep sleep) h1))
      else
        (case f h of
           (None, h1) \<Rightarrow> (None, h1)
         | (Some e, h1) \<Rightarrow>
             (Some (''failed after '' @ string_of_int attempts @ '' attempts, last error: '' @ e), h1)))"
  by pat_completeness auto
termination
  by (relation "measure (\<lambda>(i, attempts, sleep, f, h). nat (wrap64 (attempts - 1) - i))") auto

definition Retry ::
  "int \<Rightarrow> Duration \<Rightarrow> (history \<Rightarrow> error option \<times> history) \<Rightarrow> history \<Rightarrow> error option \<times> history" where
  "Retry attempts sleep f h = Retry_from 0 attempts sleep f h"

text \<open>
  \<^verbatim>\<open>WaitForPredicateWithTimer\<close>: a \<^verbatim>\<open>select\<close> over the context, the timeout timer and the
  ticker, until the predicate holds.  The loop may run forever: the result is \<open>None\<close>
  then.  The predicate is a closure: \<open>s\<close> is the state of the variables it captures.
  No predicate of the installer uses the timer it is handed.
\<close>

partial_function (option) WaitForPredicateWithTimer ::
  "env \<Rightarrow> Context \<Rightarrow> Duration \<Rightarrow> Duration \<Rightarrow> ('s \<Rightarrow> history \<Rightarrow> (bool \<times> 's) \<times> history) \<Rightarrow> 's
     \<Rightarrow> history \<Rightarrow> ((error option \<times> 's) \<times> history) option" where
  "WaitForPredicateWithTimer env ctx timeout interval predicate s h =
     (let (c, h1) = select_case env (ctx_chans ctx @ [Ch_Timer timeout, Ch_Ticker interval]) h in
      if c = Ch_CtxDone then Some ((Some ctx_Err, s), h1)
      else if c = Ch_Timer timeout then Some ((Some ''timed out'', s), h1)
      else
        (let ((b, s1), h2) = predicate s h1 in
         if b then Some ((None, s1), h2)
         else WaitForPredicateWithTimer env ctx timeout interval predicate s1 h2))"

declare WaitForPredicateWithTimer.simps [code]

definition WaitForPredicateWithContext ::
  "env \<Rightarrow> Context \<Rightarrow> Duration \<Rightarrow> Duration \<Rightarrow> ('s \<Rightarrow> history \<Rightarrow> (bool \<times> 's) \<times> history) \<Rightarrow> 's
     \<Rightarrow> history \<Rightarrow> ((error option \<times> 's) \<times> history) option" where
  "WaitForPredicateWithContext env ctx timeout interval predicate s h =
     WaitForPredicateWithTimer env ctx timeout interval predicate s h"

definition WaitForPredicate ::
  "env \<Rightarrow> Duration \<Rightarrow> Duration \<Rightarrow> ('s \<Rightarrow> history \<Rightarrow> (bool \<times> 's) \<times> history) \<Rightarrow> 's
     \<Rightarrow> history \<Rightarrow> ((error option \<times> 's) \<times> history) option" where
  "WaitForPredicate env timeout interval predicate s h =
     WaitForPredicateWithContext env NeverDone timeout interval predicate s h"

definition IsVersionLessThan47 :: "env \<Rightarrow> string \<Rightarrow> bool \<times> error option" where
  "IsVersionLessThan47 env openshiftVersion =
     (case version_NewVersion env openshiftVersion of
        Inl err \<Rightarrow> (False, Some err)
      | Inr clusterVersion \<Rightarrow>
          (case version_NewVersion env ''4.7'' of
             Inl err \<Rightarrow> (False, Some err)
           | Inr v47 \<Rightarrow> (version_LessThan env clusterVersion v47, None)))"

definition EtcdPatchRequired :: "env \<Rightarrow> string \<Rightarrow> bool \<times> error option" where
  "EtcdPatchRequired env openshiftVersion = IsVersionLessThan47 env openshiftVersion"

section \<open>The installer\<close>

text \<open>
  The installer \<open>i\<close> is its embedded configuration; its collaborators are the environment.
  A method returns its Go results and the new history.
\<close>

definition errors_Wrap :: "error option \<Rightarrow> string \<Rightarrow> error option" where
  "errors_Wrap err message = (case err of None \<Rightarrow> None | Some e \<Rightarrow> Some (message @ '': '' @ e))"

definition UpdateHostInstallProgress :: "env \<Rightarrow> Config \<Rightarrow> HostStage \<Rightarrow> string \<Rightarrow> history \<Rightarrow> history" where
  "UpdateHostInstallProgress env i newStage info h =
     (if HostID i \<noteq> [] then
        (let (err, h1) =
           call_err env (Inv_UpdateHostInstallProgress (InfraEnvID i) (HostID i) newStage info) h
         in h1)
      else h)"

fun FormatDisks_range :: "env \<Rightarrow> string list \<Rightarrow> history \<Rightarrow> history" where
  "FormatDisks_range env [] h = h"
| "FormatDisks_range env (diskToFormat # rest) h =
     (let (err, h1) = call_err env (Ops_FormatDisk diskToFormat) h in FormatDisks_range env rest h1)"

definition FormatDisks :: "env \<Rightarrow> Config \<Rightarrow> history \<Rightarrow> history" where
  "FormatDisks env i h = FormatDisks_range env (DisksToFormat i) h"

definition cleanupDevice :: "env \<Rightarrow> string \<Rightarrow> history \<Rightarrow> error option \<times> history" where
  "cleanupDevice env device h =
     (let ((vgName, err), h1) = call_str_err env (Ops_GetVGByPV device) h in
      if err \<noteq> None then (err, h1)
      else if vgName \<noteq> [] then
        (let (err, h2) = call_err env (Ops_RemoveVG vgName) h1 in
         if err \<noteq> None then (err, h2)
         else
           (let (err, h3) = call_err env (Ops_RemovePV device) h2 in
            if err \<noteq> None then (err, h3) else (None, h3)))
      else (None, h1))"

fun cleanupDevices_range :: "env \<Rightarrow> string list \<Rightarrow> history \<Rightarrow> error option \<times> history" where
  "cleanupDevices_range env [] h = (None, h)"
| "cleanupDevices_range env (device # rest) h =
     (let (err, h1) = cleanupDevice env device h in
      if err \<noteq> None then (err, h1) else cleanupDevices_range env rest h1)"

definition cleanupInstallDevice :: "env \<Rightarrow> Config \<Rightarrow> history \<Rightarrow> error option \<times> history" where
  "cleanupInstallDevice env i h =
     (if DryRunEnabled i \<or> SkipInstallationDiskCleanup i then (None, h)
      else
        (let (err, h1) = cleanupDevice env (Device i) h in
         if err \<noteq> None then (err, h1)
         else
           (let (raid, h2) = call_bool env (Ops_IsRaidMember (Device i)) h1 in
            if raid then
              (let (r, h3) = call_strs_res env (Ops_GetRaidDevices (Device i)) h2 in
               case r of
                 Inl e \<Rightarrow> (Some e, h3)
               | Inr devices \<Rightarrow>
                   (let (err, h4) = cleanupDevices_range env devices h3 in
                    if err \<noteq> None then (err, h4)
                    else
                      (let (err, h5) = call_err env (Ops_CleanRaidMembership (Device i)) h4 in
                       if err \<noteq> None then (err, h5)
                       else call_err env (Ops_Wipefs (Device i)) h5)))
            else call_err env (Ops_Wipefs (Device i)) h2)))"

definition ironicAgentServiceName :: string where
  "ironicAgentServiceName = ''ironic-agent.service''"

definition finalize :: "env \<Rightarrow> Config \<Rightarrow> history \<Rightarrow> error option \<times> history" where
  "finalize env i h =
     (let h1 = UpdateHostInstallProgress env i HostStageRebooting [] h in
      if DryRunEnabled i then
        (let ((out, err), h2) =
           call_str_err env (Ops_ExecPrivilegeCommand ''touch'' [FakeRebootMarkerPath i]) h1
         in (errors_Wrap err ''failed to touch fake reboot marker'', h2))
      else
        (let ((out, err), h2) =
           call_str_err env
             (Ops_ExecPrivilegeCommand ''systemctl'' [''list-units'', ''--no-legend'', ironicAgentServiceName]) h1
         in
         if err \<noteq> None then (err, h2)
         else if sublist ironicAgentServiceName out then
           (let (err, h3) = call_err env (Ops_SystemctlAction ''stop'' [''agent.service'']) h2 in
            if err \<noteq> None then (err, h3) else (None, h3))
         else
           (let (err, h3) = call_err env Ops_Reboot h2 in
            if err \<noteq> None then (err, h3) else (None, h3))))"

definition getFileFromService :: "env \<Rightarrow> string \<Rightarrow> history \<Rightarrow> (string \<times> error option) \<times> history" where
  "getFileFromService env filename h =
     (let dest = filepath_Join env InstallDir filename;
          (err, h1) = call_err env (Inv_DownloadFile filename dest) h
      in ((dest, err), h1))"

definition downloadHostIgnition :: "env \<Rightarrow> Config \<Rightarrow> history \<Rightarrow> (string \<times> error option) \<times> history" where
  "downloadHostIgnition env i h =
     (let filename = Role i @ ''-'' @ HostID i @ ''.ign'';
          dest = filepath_Join env InstallDir filename;
          (err, h1) = call_err env (Inv_DownloadHostIgnition (InfraEnvID i) (HostID i) dest) h
      in ((dest, err), h1))"

text \<open>
  \<^verbatim>\<open>updateSingleNodeIgnition\<close>.  The two parsed configurations are distinct objects; the
  assignment to \<^verbatim>\<open>hostConfig.Ignition.Config\<close> is the record update.
\<close>

definition updateSingleNodeIgnition :: "env \<Rightarrow> Config \<Rightarrow> string \<Rightarrow> history \<Rightarrow> error option \<times> history" where
  "updateSingleNodeIgnition env i singleNodeIgnitionPath h =
     (if DryRunEnabled i then (None, h)
      else
        (let ((hostIgnitionPath, err), h1) = downloadHostIgnition env i h in
         if err \<noteq> None then (err, h1)
         else
           (let (r, h2) = call_config env (Ign_ParseIgnitionFile singleNodeIgnitionPath) h1 in
            case r of
              Inl e \<Rightarrow> (Some e, h2)
            | Inr singleNodeconfig \<Rightarrow>
                (let (r, h3) = call_config env (Ign_ParseIgnitionFile hostIgnitionPath) h2 in
                 case r of
                   Inl e \<Rightarrow> (Some e, h3)
                 | Inr parsed \<Rightarrow>
                     (let hostConfig =
                            parsed\<lparr>Ignition := (Ignition parsed)\<lparr>Config := EmptyIgnitionConfig env\<rparr>\<rparr>;
                          (r, h4) = call_config env (Ign_MergeIgnitionConfig singleNodeconfig hostConfig) h3
                      in
                      case r of
                        Inl mergeErr \<Rightarrow>
                          (errors_Wrap (Some mergeErr) ''failed to apply host ignition config overrides'', h4)
                      | Inr merged \<Rightarrow>
                          (let (err, h5) =
                             call_err env (Ign_WriteIgnitionFile singleNodeIgnitionPath merged) h4
                           in if err \<noteq> None then (err, h5) else (None, h5)))))))"

definition writeImageToDisk :: "env \<Rightarrow> Config \<Rightarrow> string \<Rightarrow> history \<Rightarrow> error option \<times> history" where
  "writeImageToDisk env i ignitionPath h =
     (let h1 = UpdateHostInstallProgress env i HostStageWritingImageToDisk [] h;
          interval = Second;
          (err, h2) =
            Retry 3 interval
              (\<lambda>h. call_err env (Ops_WriteImageToDisk ignitionPath (Device i) (InstallerArgs i)) h) h1
      in if err \<noteq> None then (err, h2) else (None, h2))"

text \<open>
  \<^verbatim>\<open>extractIgnitionToFS\<close>: \<open>n\<close> is the number of iterations left of the loop
  \<^verbatim>\<open>for j := 0; j < extractRetryCount; j++\<close>, \<open>err\<close> the named result.
\<close>

fun extractIgnitionToFS_for ::
  "env \<Rightarrow> string \<Rightarrow> string \<Rightarrow> nat \<Rightarrow> error option \<Rightarrow> history \<Rightarrow> error option \<times> history" where
  "extractIgnitionToFS_for env mcoImage ignitionPath 0 err h = (err, h)"
| "extractIgnitionToFS_for env mcoImage ignitionPath (Suc n) err h =
     (let ((out, err1), h1) =
        call_str_err env
          (Ops_ExecPrivilegeCommand ''podman''
             [''run'', ''--net'', ''host'', ''--pid=host'', ''--volume'', ''/:/rootfs:rw'',
              ''--volume'', ''/usr/bin/rpm-ostree:/usr/bin/rpm-ostree'', ''--privileged'',
              ''--entrypoint'', ''/usr/bin/machine-config-daemon'', mcoImage,
              ''start'', ''--node-name'', ''localhost'', ''--root-mount'', ''/rootfs'',
              ''--once-from'', ignitionPath, ''--skip-reboot'']) h
      in
      if err1 \<noteq> None then extractIgnitionToFS_for env mcoImage ignitionPath n err1 h1
      else (None, h1))"

definition extractIgnitionToFS :: "env \<Rightarrow> Config \<Rightarrow> string \<Rightarrow> history \<Rightarrow> error option \<times> history" where
  "extractIgnitionToFS env i ignitionPath h =
     (if DryRunEnabled i then (None, h)
      else extractIgnitionToFS_for env (MCOImage i) ignitionPath extractRetryCount None h)"

definition generateSshKeyPair :: "env \<Rightarrow> Config \<Rightarrow> history \<Rightarrow> error option \<times> history" where
  "generateSshKeyPair env i h =
     (if DryRunEnabled i then (None, h)
      else
        (let ((out, err), h1) =
           call_str_err env
             (Ops_ExecPrivilegeCommand ''ssh-keygen'' [''-q'', ''-f'', sshKeyPath env, ''-N'', []]) h
         in if err \<noteq> None then (err, h1) else (None, h1)))"

definition checkLocalhostName :: "env \<Rightarrow> Config \<Rightarrow> history \<Rightarrow> error option \<times> history" where
  "checkLocalhostName env i h =
     (if DryRunEnabled i then (None, h)
      else
        (let (r, h1) = call_str_res env Ops_GetHostname h in
         case r of
           Inl e \<Rightarrow> (Some e, h1)
         | Inr hostname \<Rightarrow>
             if hostname \<noteq> ''localhost'' then (None, h1)
             else
               (let (uuid, h2) = call_str env Uuid_New h1;
                    data = ''random-hostname-'' @ uuid
                in call_err env (Ops_CreateRandomHostname data) h2)))"

fun startBootstrap_services :: "env \<Rightarrow> string list \<Rightarrow> history \<Rightarrow> error option \<times> history" where
  "startBootstrap_services env [] h = (None, h)"
| "startBootstrap_services env (service # rest) h =
     (let (err, h1) = call_err env (Ops_SystemctlAction ''start'' [service]) h in
      if err \<noteq> None then (err, h1) else startBootstrap_services env rest h1)"

definition startBootstrap_ssh :: "env \<Rightarrow> Config \<Rightarrow> history \<Rightarrow> error option \<times> history" where
  "startBootstrap_ssh env i h =
     (if HighAvailabilityMode i \<noteq> ClusterHighAvailabilityModeNone then
        (let (err, h1) = generateSshKeyPair env i h in
         if err \<noteq> None then (err, h1)
         else
           (let (err, h2) =
              call_err env
                (Ops_CreateOpenshiftSshManifest (assistedInstallerSshManifest env) (sshManifestTmpl env)
                   (sshPubKeyPath env)) h1
            in if err \<noteq> None then (err, h2) else (None, h2)))
      else (None, h))"

definition startBootstrap :: "env \<Rightarrow> Config \<Rightarrow> history \<Rightarrow> error option \<times> history" where
  "startBootstrap env i h =
     (let (err, h1) = call_err env (Ops_Mkdir (sshDir env)) h in
      if err \<noteq> None then (err, h1)
      else
        (let ((ignitionPath, err), h2) = getFileFromService env ''bootstrap.ign'' h1 in
         if err \<noteq> None then (err, h2)
         else
           (let (err, h3) = call_err env (Ops_ExtractFromIgnition ignitionPath dockerConfigFile) h2 in
            if err \<noteq> None then (err, h3)
            else
              (let (err, h4) = extractIgnitionToFS env i ignitionPath h3 in
               if err \<noteq> None then (err, h4)
               else
                 (let (err, h5) = startBootstrap_ssh env i h4 in
                  if err \<noteq> None then (err, h5)
                  else
                    (let (err, h6) = call_err env (Ops_SystemctlAction ''daemon-reload'' []) h5 in
                     if err \<noteq> None then (err, h6)
                     else
                       (let (err, h7) = checkLocalhostName env i h6 in
                        if err \<noteq> None then (err, h7)
                        else
                          (let (err, h8) =
                             call_err env (Ops_SystemctlAction ''restart'' [''NetworkManager.service'']) h7
                           in
                           if err \<noteq> None then (err, h8)
                           else
                             (let (err, h9) = call_err env Ops_PrepareController h8 in
                              if err \<noteq> None then (err, h9)
                              else
                                startBootstrap_services env
                                  [''bootkube.service'', ''approve-csr.service'', ''progress.service'']
                                  h9)))))))))"

subsection \<open>Waiting for the control plane\<close>

definition waitForNetworkType :: "env \<Rightarrow> history \<Rightarrow> (error option \<times> history) option" where
  "waitForNetworkType env h =
     (case WaitForPredicate env waitForeverTimeout (5 * Second)
             (\<lambda>(s :: unit) h.
                let (r, h1) = call_str_res env K8s_GetNetworkType h in
                (case r of Inl err \<Rightarrow> ((False, s), h1) | Inr nt \<Rightarrow> ((True, s), h1)))
             () h of
        None \<Rightarrow> None
      | Some ((err, s), h1) \<Rightarrow> Some (err, h1))"

fun numDone_range :: "Host list \<Rightarrow> int \<Rightarrow> int" where
  "numDone_range [] numDone = numDone"
| "numDone_range (h # hosts) numDone =
     (if Progress_CurrentStage h = HostStageDone then numDone_range hosts (numDone + 1)
      else numDone_range hosts numDone)"

definition numDone :: "Host list \<Rightarrow> int" where
  "numDone hosts = numDone_range hosts 0"

text \<open>
  The predicate of \<^verbatim>\<open>workerWaitFor2ReadyMasters\<close>; its state is the captured variable
  \<^verbatim>\<open>cluster\<close> (\<open>None\<close> is \<^verbatim>\<open>nil\<close>; a failed \<^verbatim>\<open>GetCluster\<close> returns a nil cluster).
\<close>

definition workerWaitFor2ReadyMasters_predicate ::
  "env \<Rightarrow> Cluster option \<Rightarrow> history \<Rightarrow> (bool \<times> Cluster option) \<times> history" where
  "workerWaitFor2ReadyMasters_predicate env cluster h =
     (let (fetched, h1) =
        (if cluster = None then call_cluster env (Inv_GetCluster False) h
         else (Inr (the cluster), h))
      in
      case fetched of
        Inl callErr \<Rightarrow> ((False, None), h1)
      | Inr c \<Rightarrow>
          if StringValue (Kind c) = ClusterKindAddHostsCluster then ((True, Some c), h1)
          else
            (let (r, h2) = call_hosts env (Inv_ListsHostsForRole HostRoleMaster) h1 in
             case r of
               Inl callErr \<Rightarrow> ((False, Some c), h2)
             | Inr hosts \<Rightarrow> ((numDone hosts \<ge> minMasterNodes, Some c), h2)))"

definition workerWaitFor2ReadyMasters :: "env \<Rightarrow> Config \<Rightarrow> history \<Rightarrow> (error option \<times> history) option" where
  "workerWaitFor2ReadyMasters env i h =
     (let h1 = UpdateHostInstallProgress env i HostStageWaitingForControlPlane [] h in
      case WaitForPredicate env waitForeverTimeout generalWaitInterval
             (workerWaitFor2ReadyMasters_predicate env) None h1 of
        None \<Rightarrow> None
      | Some ((err, cluster), h2) \<Rightarrow> Some (None, h2))"

definition shouldControlPlaneReplicasPatchApplied ::
  "env \<Rightarrow> Config \<Rightarrow> history \<Rightarrow> ((bool \<times> error option) \<times> history) option" where
  "shouldControlPlaneReplicasPatchApplied env i h =
     (let (controlPlanePatchRequired, err) = IsVersionLessThan47 env (OpenshiftVersion i) in
      if err \<noteq> None then Some ((False, err), h)
      else if \<not> controlPlanePatchRequired then Some ((False, None), h)
      else
        (case waitForNetworkType env h of
           None \<Rightarrow> None
         | Some (err, h1) \<Rightarrow>
             if err \<noteq> None then Some ((False, err), h1)
             else
               (let (r, h2) = call_str_res env K8s_GetNetworkType h1 in
                case r of
                  Inl err \<Rightarrow> Some ((False, Some err), h2)
                | Inr nt \<Rightarrow>
                    if nt \<noteq> ovnKubernetes then Some ((False, None), h2)
                    else
                      (let (r, h3) = call_int_res env K8s_GetControlPlaneReplicas h2 in
                       case r of
                         Inl err \<Rightarrow> Some ((False, Some err), h3)
                       | Inr origControlPlaneReplicas \<Rightarrow>
                           if origControlPlaneReplicas \<noteq> numMasterNodes then Some ((False, None), h3)
                           else Some ((True, None), h3)))))"

text \<open>
  \<^verbatim>\<open>getInventoryHostsMap\<close>.  A Go map is a list of pairs with distinct keys, in the order
  its \<^verbatim>\<open>range\<close> visits them; the loop deletes the first entry of the current host and stops.
\<close>

fun getInventoryHostsMap_range :: "string \<Rightarrow> (string \<times> HostData) list \<Rightarrow> (string \<times> HostData) list" where
  "getInventoryHostsMap_range hostID [] = []"
| "getInventoryHostsMap_range hostID ((name, hostData) # rest) =
     (if Host_ID (HostData_Host hostData) = hostID then rest
      else (name, hostData) # getInventoryHostsMap_range hostID rest)"

definition getInventoryHostsMap ::
  "env \<Rightarrow> Config \<Rightarrow> (string \<times> HostData) list option \<Rightarrow> history
     \<Rightarrow> ((string \<times> HostData) list option \<times> error option) \<times> history" where
  "getInventoryHostsMap env i hostsMap h =
     (case hostsMap of
        None \<Rightarrow>
          (let (r, h1) = call_hostsmap env Inv_GetEnabledHostsNamesHosts h in
           case r of
             Inl err \<Rightarrow> ((None, Some err), h1)
           | Inr fetched \<Rightarrow> ((Some (getInventoryHostsMap_range (HostID i) fetched), None), h1))
      | Some m \<Rightarrow> ((Some m, None), h))"

definition map_entries :: "(string \<times> HostData) list option \<Rightarrow> (string \<times> HostData) list" where
  "map_entries m = (case m of None \<Rightarrow> [] | Some entries \<Rightarrow> entries)"

text \<open>
  \<^verbatim>\<open>updateReadyMasters\<close>: the loop over \<^verbatim>\<open>nodes.Items\<close>.  \<^verbatim>\<open>readyMasters\<close> is a pointer to
  the caller's slice, so the slice is a result also when an error is returned.
\<close>

fun updateReadyMasters_range ::
  "env \<Rightarrow> Node list \<Rightarrow> string list \<Rightarrow> (string \<times> HostData) list \<Rightarrow> (string \<times> HostData) list
     \<Rightarrow> history \<Rightarrow> (error option \<times> string list) \<times> history" where
  "updateReadyMasters_range env [] readyMasters inventoryHostsMap knownIpAddresses h =
     ((None, readyMasters), h)"
| "updateReadyMasters_range env (node # rest) readyMasters inventoryHostsMap knownIpAddresses h =
     (if common_IsK8sNodeIsReady env node \<and> Node_Name node \<notin> set readyMasters then
        (let readyMasters1 = readyMasters @ [Node_Name node] in
         case common_HostMatchByNameOrIPAddress env node inventoryHostsMap knownIpAddresses of
           None \<Rightarrow>
             ((Some (''Node '' @ Node_Name node @ '' is not in inventory hosts''), readyMasters1), h)
         | Some host \<Rightarrow>
             (let (err, h1) =
                call_err env
                  (Inv_UpdateHostInstallProgress (Host_InfraEnvID (HostData_Host host))
                     (Host_ID (HostData_Host host)) HostStageJoined []) h
              in updateReadyMasters_range env rest readyMasters1 inventoryHostsMap knownIpAddresses h1))
      else updateReadyMasters_range env rest readyMasters inventoryHostsMap knownIpAddresses h)"

definition updateReadyMasters ::
  "env \<Rightarrow> Node list \<Rightarrow> string list \<Rightarrow> (string \<times> HostData) list \<Rightarrow> history
     \<Rightarrow> (error option \<times> string list) \<times> history" where
  "updateReadyMasters env nodes readyMasters inventoryHostsMap h =
     (let knownIpAddresses = common_BuildHostsMapIPAddressBased env inventoryHostsMap in
      updateReadyMasters_range env nodes readyMasters inventoryHostsMap knownIpAddresses h)"

text \<open>
  The closure \<^verbatim>\<open>sufficientMasterNodes\<close> of \<^verbatim>\<open>waitForMasterNodes\<close>; its state is the pair of
  the captured variables \<^verbatim>\<open>readyMasters\<close> and \<^verbatim>\<open>inventoryHostsMap\<close>.  The parameter
  \<^verbatim>\<open>minMasterNodes\<close> of \<^verbatim>\<open>waitForMasterNodes\<close>, which hides the constant, is \<open>minNodes\<close>.
\<close>

definition sufficientMasterNodes ::
  "env \<Rightarrow> Config \<Rightarrow> int \<Rightarrow> string list \<times> (string \<times> HostData) list option \<Rightarrow> history
     \<Rightarrow> (bool \<times> string list \<times> (string \<times> HostData) list option) \<times> history" where
  "sufficientMasterNodes env i minNodes s h =
     (let (readyMasters, inventoryHostsMap) = s;
          ((inventoryHostsMap1, err), h1) = getInventoryHostsMap env i inventoryHostsMap h
      in
      if err \<noteq> None then ((False, readyMasters, inventoryHostsMap1), h1)
      else
        (let (r, h2) = call_nodes env K8s_ListMasterNodes h1 in
         case r of
           Inl err \<Rightarrow> ((False, readyMasters, inventoryHostsMap1), h2)
         | Inr nodes \<Rightarrow>
             (let ((err, readyMasters1), h3) =
                updateReadyMasters env nodes readyMasters (map_entries inventoryHostsMap1) h2
              in
              if err \<noteq> None then ((False, readyMasters1, inventoryHostsMap1), h3)
              else if int (length readyMasters1) \<ge> minNodes
                then ((True, readyMasters1, inventoryHostsMap1), h3)
              else ((False, readyMasters1, inventoryHostsMap1), h3))))"

partial_function (option) waitForMasterNodes_for ::
  "env \<Rightarrow> Config \<Rightarrow> Context \<Rightarrow> int \<Rightarrow> string list \<times> (string \<times> HostData) list option \<Rightarrow> history
     \<Rightarrow> ((string list \<times> (string \<times> HostData) list option) \<times> history) option" where
  "waitForMasterNodes_for env i ctx minNodes s h =
     (let (c, h1) = select_case env (ctx_chans ctx @ [Ch_After generalWaitInterval]) h in
      if c = Ch_CtxDone then Some (s, h1)
      else
        (let ((sufficient, s1), h2) = sufficientMasterNodes env i minNodes s h1 in
         if sufficient then Some (s1, h2)
         else waitForMasterNodes_for env i ctx minNodes s1 h2))"

declare waitForMasterNodes_for.simps [code]

definition waitForMasterNodes :: "env \<Rightarrow> Config \<Rightarrow> Context \<Rightarrow> int \<Rightarrow> history \<Rightarrow> history option" where
  "waitForMasterNodes env i ctx minNodes h =
     (case waitForMasterNodes_for env i ctx minNodes ([], None) h of
        None \<Rightarrow> None
      | Some (s, h1) \<Rightarrow> Some h1)"

definition waitForMinMasterNodes_wait ::
  "env \<Rightarrow> Config \<Rightarrow> Context \<Rightarrow> bool \<Rightarrow> history \<Rightarrow> (error option \<times> history) option" where
  "waitForMinMasterNodes_wait env i ctx shouldPatchControlPlaneReplicas h =
     (case waitForMasterNodes env i ctx minMasterNodes h of
        None \<Rightarrow> None
      | Some h1 \<Rightarrow>
          if shouldPatchControlPlaneReplicas then
            (let (err, h2) = call_err env K8s_UnPatchControlPlaneReplicas h1 in
             if err \<noteq> None then Some (err, h2) else Some (None, h2))
          else Some (None, h1))"

definition waitForMinMasterNodes :: "env \<Rightarrow> Config \<Rightarrow> Context \<Rightarrow> history \<Rightarrow> (error option \<times> history) option" where
  "waitForMinMasterNodes env i ctx h =
     (case shouldControlPlaneReplicasPatchApplied env i h of
        None \<Rightarrow> None
      | Some ((shouldPatchControlPlaneReplicas, err), h1) \<Rightarrow>
          if err \<noteq> None then Some (err, h1)
          else if shouldPatchControlPlaneReplicas then
            (let (err, h2) = call_err env K8s_PatchControlPlaneReplicas h1 in
             if err \<noteq> None then Some (err, h2)
             else waitForMinMasterNodes_wait env i ctx shouldPatchControlPlaneReplicas h2)
          else waitForMinMasterNodes_wait env i ctx shouldPatchControlPlaneReplicas h1)"

partial_function (option) waitForBootkube_for :: "env \<Rightarrow> Context \<Rightarrow> history \<Rightarrow> history option" where
  "waitForBootkube_for env ctx h =
     (let (c, h1) = select_case env (ctx_chans ctx @ [Ch_After generalWaitInterval]) h in
      if c = Ch_CtxDone then Some h1
      else
        (let ((out, err), h2) =
           call_str_err env (Ops_ExecPrivilegeCommand ''stat'' [''/opt/openshift/.bootkube.done'']) h1
         in
         if err = None then
           (let ((out, err), h3) =
              call_str_err env (Ops_ExecPrivilegeCommand ''systemctl'' [''status'', ''bootkube.service'']) h2
            in Some h3)
         else waitForBootkube_for env ctx h2))"

declare waitForBootkube_for.simps [code]

definition waitForBootkube :: "env \<Rightarrow> Config \<Rightarrow> Context \<Rightarrow> history \<Rightarrow> history option" where
  "waitForBootkube env i ctx h =
     waitForBootkube_for env ctx (UpdateHostInstallProgress env i HostStageWaitingForBootkube [] h)"

definition uploadControllerLogs :: "env \<Rightarrow> Config \<Rightarrow> history \<Rightarrow> history" where
  "uploadControllerLogs env i h =
     (let (controllerPod, h1) =
        call_pod env (Common_GetPodInStatus (common_AssistedControllerPrefix env) assistedControllerNamespace) h
      in
      case controllerPod of
        None \<Rightarrow> h1
      | Some podName \<Rightarrow>
          (let (err, h2) =
             call_err env (Common_UploadPodLogs (ClusterID i) podName assistedControllerNamespace) h1
           in h2))"

fun wasControllerReadyEventSet_range ::
  "env \<Rightarrow> Event list \<Rightarrow> (string \<rightharpoonup> string) \<Rightarrow> bool \<Rightarrow> bool \<times> (string \<rightharpoonup> string)" where
  "wasControllerReadyEventSet_range env [] previousEvents readyEventFound =
     (readyEventFound, previousEvents)"
| "wasControllerReadyEventSet_range env (event # rest) previousEvents readyEventFound =
     wasControllerReadyEventSet_range env rest
       (if previousEvents (Event_UID event) = None
        then previousEvents(Event_UID event \<mapsto> Event_Name event) else previousEvents)
       (if Event_Name event = common_AssistedControllerIsReadyEvent env then True else readyEventFound)"

definition wasControllerReadyEventSet ::
  "env \<Rightarrow> (string \<rightharpoonup> string) \<Rightarrow> history \<Rightarrow> (bool \<times> (string \<rightharpoonup> string)) \<times> history" where
  "wasControllerReadyEventSet env previousEvents h =
     (let (r, h1) = call_events env (K8s_ListEvents assistedControllerNamespace) h in
      case r of
        Inl errEvents \<Rightarrow> ((False, previousEvents), h1)
      | Inr items \<Rightarrow> (wasControllerReadyEventSet_range env items previousEvents False, h1))"

partial_function (option) waitForController_for ::
  "env \<Rightarrow> Config \<Rightarrow> (string \<rightharpoonup> string) \<Rightarrow> history \<Rightarrow> (error option \<times> history) option" where
  "waitForController_for env i events h =
     (let (c, h1) = select_case env [Ch_Ticker generalWaitInterval, Ch_Ticker (5 * Minute)] h in
      if c = Ch_Ticker generalWaitInterval then
        (let ((ready, events1), h2) = wasControllerReadyEventSet env events h1 in
         if ready then
           Some (None,
             uploadControllerLogs env i
               (call_unit (Inv_ClusterLogProgressReport (ClusterID i) LogsStateRequested) h2))
         else waitForController_for env i events1 h2)
      else waitForController_for env i events (uploadControllerLogs env i h1))"

declare waitForController_for.simps [code]

definition waitForController :: "env \<Rightarrow> Config \<Rightarrow> history \<Rightarrow> (error option \<times> history) option" where
  "waitForController env i h =
     waitForController_for env i Map.empty
       (UpdateHostInstallProgress env i HostStageWaitingForController
          ''waiting for controller pod ready event'' h)"

definition waitForControlPlane_etcd :: "env \<Rightarrow> Config \<Rightarrow> Context \<Rightarrow> history \<Rightarrow> (error option \<times> history) option" where
  "waitForControlPlane_etcd env i ctx h =
     (case waitForBootkube env i ctx h of
        None \<Rightarrow> None
      | Some h1 \<Rightarrow>
          (case waitForController env i h1 of
             None \<Rightarrow> None
           | Some (err, h2) \<Rightarrow> if err \<noteq> None then Some (err, h2) else Some (None, h2)))"

definition waitForControlPlane :: "env \<Rightarrow> Config \<Rightarrow> Context \<Rightarrow> history \<Rightarrow> (error option \<times> history) option" where
  "waitForControlPlane env i ctx h =
     (let (err, h1) = call_err env (Ops_ReloadHostFile ''/etc/resolv.conf'') h in
      if err \<noteq> None then Some (err, h1)
      else
        (let (err, h2) = call_err env (K8s_Builder KubeconfigPath) h1 in
         if err \<noteq> None then Some (err, h2)
         else
           (let h3 = UpdateHostInstallProgress env i HostStageWaitingForControlPlane
                       waitingForMastersStatusInfo h2
            in
            case waitForMinMasterNodes env i ctx h3 of
              None \<Rightarrow> None
            | Some (err, h4) \<Rightarrow>
                if err \<noteq> None then Some (err, h4)
                else
                  (let (patch, err) = EtcdPatchRequired env (OpenshiftVersion i) in
                   if err \<noteq> None then Some (err, h4)
                   else if patch then
                     (let (err, h5) = call_err env K8s_PatchEtcd h4 in
                      if err \<noteq> None then Some (err, h5)
                      else waitForControlPlane_etcd env i ctx h5)
                   else waitForControlPlane_etcd env i ctx h4))))"

subsection \<open>Single node\<close>

definition createSingleNodeMasterIgnition ::
  "env \<Rightarrow> Config \<Rightarrow> history \<Rightarrow> (((string \<times> error option) \<times> Config) \<times> history) option" where
  "createSingleNodeMasterIgnition env i h =
     (let (err, h1) = startBootstrap env i h in
      if err \<noteq> None then Some ((([], err), i), h1)
      else
        (case waitForBootkube env i NeverDone h1 of
           None \<Rightarrow> None
         | Some h2 \<Rightarrow>
             (let ((out, err), h3) =
                call_str_err env (Ops_ExecPrivilegeCommand ''stat'' [singleNodeMasterIgnitionPath]) h2
              in
              if err \<noteq> None then Some ((([], err), i), h3)
              else
                (let i1 = i\<lparr>Role := HostRoleMaster\<rparr>;
                     (err, h4) = updateSingleNodeIgnition env i1 singleNodeMasterIgnitionPath h3
                 in
                 if err \<noteq> None then Some ((([], err), i1), h4)
                 else Some (((singleNodeMasterIgnitionPath, None), i1), h4)))))"

subsection \<open>InstallNode and RunInstaller\<close>

text \<open>
  \<^verbatim>\<open>InstallNode\<close>, the main flow of one host.  On the bootstrap host \<^verbatim>\<open>startBootstrap\<close> runs
  in a goroutine of an error group that is joined by \<^verbatim>\<open>bootstrapErrGroup.Wait()\<close>: the model
  runs it where it is launched and keeps its error for the join.  It shares no variable
  with the main flow.  The watcher \<^verbatim>\<open>updateConfiguringStatus\<close>, a second goroutine that
  reports stage configuring for other hosts through package \<^verbatim>\<open>common\<close>, is not part of
  the main flow and is not modelled.  The context of \<^verbatim>\<open>InstallNode\<close> is cancelled by a
  deferred call only, so it is \<open>NeverDone\<close> for the calls below.
\<close>

definition InstallNode_reboot :: "env \<Rightarrow> Config \<Rightarrow> bool \<Rightarrow> history \<Rightarrow> error option \<times> history" where
  "InstallNode_reboot env i isBootstrap h =
     (let h1 = call_unit (Inv_HostLogProgressReport (InfraEnvID i) (HostID i) LogsStateRequested) h;
          ((out, err), h2) =
            call_str_err env
              (Ops_UploadInstallationLogs
                 (isBootstrap \<or> HighAvailabilityMode i = ClusterHighAvailabilityModeNone)) h1
      in finalize env i h2)"

definition InstallNode_wait ::
  "env \<Rightarrow> Config \<Rightarrow> bool \<Rightarrow> error option \<Rightarrow> history \<Rightarrow> (error option \<times> history) option" where
  "InstallNode_wait env i isBootstrap bootstrapErr h =
     (if isBootstrap then
        (let h1 = UpdateHostInstallProgress env i HostStageWaitingForControlPlane
                    waitingForBootstrapToPrepare h
         in
         if bootstrapErr \<noteq> None then Some (bootstrapErr, h1)
         else
           (case waitForControlPlane env i NeverDone h1 of
              None \<Rightarrow> None
            | Some (err, h2) \<Rightarrow>
                if err \<noteq> None then Some (err, h2) else Some (InstallNode_reboot env i isBootstrap h2)))
      else if Role i = HostRoleWorker then
        (case workerWaitFor2ReadyMasters env i h of
           None \<Rightarrow> None
         | Some (err, h1) \<Rightarrow>
             if err \<noteq> None then Some (err, h1) else Some (InstallNode_reboot env i isBootstrap h1))
      else Some (InstallNode_reboot env i isBootstrap h))"

definition InstallNode_write ::
  "env \<Rightarrow> Config \<Rightarrow> bool \<Rightarrow> error option \<Rightarrow> string \<Rightarrow> history \<Rightarrow> (error option \<times> history) option" where
  "InstallNode_write env i isBootstrap bootstrapErr ignitionPath h =
     (let (err, h1) = writeImageToDisk env i ignitionPath h in
      if err \<noteq> None then Some (err, h1)
      else
        (let (err, h2) = call_err env (Ops_SetBootOrder (Device i)) h1 in
         InstallNode_wait env i isBootstrap bootstrapErr h2))"

definition InstallNode_ignition ::
  "env \<Rightarrow> Config \<Rightarrow> bool \<Rightarrow> error option \<Rightarrow> history \<Rightarrow> (error option \<times> history) option" where
  "InstallNode_ignition env i isBootstrap bootstrapErr h =
     (if HighAvailabilityMode i = ClusterHighAvailabilityModeNone then
        (case createSingleNodeMasterIgnition env i h of
           None \<Rightarrow> None
         | Some (((ignitionPath, err), i1), h1) \<Rightarrow>
             if err \<noteq> None then Some (err, h1)
             else InstallNode_write env i1 isBootstrap bootstrapErr ignitionPath h1)
      else
        (let ((ignitionPath, err), h1) = downloadHostIgnition env i h in
         if err \<noteq> None then Some (err, h1)
         else InstallNode_write env i isBootstrap bootstrapErr ignitionPath h1))"

definition InstallNode :: "env \<Rightarrow> Config \<Rightarrow> history \<Rightarrow> (error option \<times> history) option" where
  "InstallNode env i h =
     (let h1 = UpdateHostInstallProgress env i HostStageStartingInstallation (Role i) h;
          (device, h2) = call_str env (Ops_EvaluateDiskSymlink (Device i)) h1;
          i1 = i\<lparr>Device := device\<rparr>;
          (err, h3) = cleanupInstallDevice env i1 h2
      in
      if err \<noteq> None then Some (err, h3)
      else
        (let (err, h4) = call_err env (Ops_Mkdir InstallDir) h3 in
         if err \<noteq> None then Some (err, h4)
         else
           (let isBootstrap =
                  (Role i1 = HostRoleBootstrap
                   \<and> HighAvailabilityMode i1 \<noteq> ClusterHighAvailabilityModeNone);
                (bootstrapErr, h5) = (if isBootstrap then startBootstrap env i1 h4 else (None, h4));
                i2 = (if isBootstrap then i1\<lparr>Role := HostRoleMaster\<rparr> else i1);
                h6 = UpdateHostInstallProgress env i2 HostStageInstalling (Role i2) h5
            in InstallNode_ignition env i2 isBootstrap bootstrapErr h6)))"

text \<open>
  \<^verbatim>\<open>RunInstaller\<close> either returns its error or, when the inventory client cannot be
  created, ends the process in \<^verbatim>\<open>logger.Fatalf\<close> (exit status 1).
\<close>

datatype outcome = Return "error option" | Exit int

definition RunInstaller :: "env \<Rightarrow> Config \<Rightarrow> history \<Rightarrow> (outcome \<times> history) option" where
  "RunInstaller env installerConfig h =
     (let (err, h1) =
        call_err env
          (Inv_CreateInventoryClientWithDelay (ClusterID installerConfig) (URL installerConfig)
             (PullSecretToken installerConfig) (SkipCertVerification installerConfig)
             (CACertPath installerConfig)) h
      in
      if err \<noteq> None then Some (Exit 1, h1)
      else
        (let h2 = FormatDisks env installerConfig h1 in
         case InstallNode env installerConfig h2 of
           None \<Rightarrow> None
         | Some (err, h3) \<Rightarrow>
             (case err of
                Some e \<Rightarrow> Some (Return (Some e), UpdateHostInstallProgress env installerConfig HostStageFailed e h3)
              | None \<Rightarrow> Some (Return None, h3))))"

section \<open>Observations on histories\<close>

text \<open>
  The results of the invocations of a call \<open>c\<close> that returns an error only, in the order
  of the history.
\<close>

fun invocations :: "call \<Rightarrow> history \<Rightarrow> error option list" where
  "invocations c [] = []"
| "invocations c ((c', r) # es) =
     (case r of
        R_err e \<Rightarrow> (if c' = c then e # invocations c es else invocations c es)
      | _ \<Rightarrow> invocations c es)"

text \<open>The error \<^verbatim>\<open>Retry\<close> returns when the last attempt failed with \<open>e\<close>.\<close>

definition Retry_error :: "int \<Rightarrow> error \<Rightarrow> error" where
  "Retry_error attempts e =
     ''failed after '' @ string_of_int attempts @ '' attempts, last error: '' @ e"

text \<open>A condition of type \<open>t\<close> with status True.\<close>

definition is_true :: "string \<Rightarrow> ClusterOperatorStatusCondition \<Rightarrow> bool" where
  "is_true t c = (Type c = t \<and> Status c = ConditionTrue)"

text \<open>
  The conditions of the test helper \<^verbatim>\<open>getClusterOperatorWithConditionsStatus\<close> at
  (True, True): Available with status True, then Degraded with status True.
\<close>

definition available_and_degraded :: "ClusterOperatorStatusCondition list" where
  "available_and_degraded =
     [\<lparr>Type = OperatorAvailable, Status = ConditionTrue, Message = []\<rparr>,
      \<lparr>Type = OperatorDegraded, Status = ConditionTrue, Message = []\<rparr>]"

text \<open>
  \<open>adds P h h'\<close>: the history \<open>h'\<close> extends \<open>h\<close> by calls that satisfy \<open>P\<close>.
\<close>

definition adds :: "(call \<Rightarrow> bool) \<Rightarrow> history \<Rightarrow> history \<Rightarrow> bool" where
  "adds P h h' = (\<exists>es. h' = h @ es \<and> (\<forall>e \<in> set es. P (fst e)))"

text \<open>
  Kinds of calls: a progress report of a given stage; the calls by which \<^verbatim>\<open>finalize\<close>
  reports and performs the reboot; the patch and un-patch of the control-plane replicas.
\<close>

definition is_report :: "HostStage \<Rightarrow> call \<Rightarrow> bool" where
  "is_report stage c =
     (case c of Inv_UpdateHostInstallProgress infraEnvID hostID newStage info \<Rightarrow> newStage = stage
      | _ \<Rightarrow> False)"

definition is_reboot :: "call \<Rightarrow> bool" where
  "is_reboot c =
     (is_report HostStageRebooting c \<or> c = Ops_Reboot
      \<or> c = Ops_SystemctlAction ''stop'' [''agent.service'']
      \<or> (case c of Ops_ExecPrivilegeCommand command args \<Rightarrow> command = ''touch'' | _ \<Rightarrow> False))"

definition is_patch :: "call \<Rightarrow> bool" where
  "is_patch c = (c = K8s_PatchControlPlaneReplicas \<or> c = K8s_UnPatchControlPlaneReplicas)"

definition quiet :: "call \<Rightarrow> bool" where
  "quiet c = (\<not> is_reboot c \<and> \<not> is_report HostStageFailed c \<and> \<not> is_patch c)"

text \<open>
  \<open>guarded G T es\<close>: every call of \<open>es\<close> that satisfies \<open>T\<close> comes after a prefix of \<open>es\<close>
  that satisfies \<open>G\<close>.
\<close>

fun guarded_from :: "(history \<Rightarrow> bool) \<Rightarrow> (call \<Rightarrow> bool) \<Rightarrow> history \<Rightarrow> history \<Rightarrow> bool" where
  "guarded_from G T seen [] = True"
| "guarded_from G T seen (e # es) = ((T (fst e) \<longrightarrow> G seen) \<and> guarded_from G T (seen @ [e]) es)"

definition guarded :: "(history \<Rightarrow> bool) \<Rightarrow> (call \<Rightarrow> bool) \<Rightarrow> history \<Rightarrow> bool" where
  "guarded G T es = guarded_from G T [] es"

text \<open>
  The names of the nodes that a history shows ready: the ready nodes of the node lists
  returned by \<^verbatim>\<open>ListMasterNodes\<close>.
\<close>

definition nodes_listed :: "call \<times> resp \<Rightarrow> Node list" where
  "nodes_listed e =
     (if fst e = K8s_ListMasterNodes then
        (case snd e of
           R_nodes r \<Rightarrow> (case r of Inl err \<Rightarrow> [] | Inr nodes \<Rightarrow> nodes)
         | _ \<Rightarrow> [])
      else [])"

definition ready_names :: "env \<Rightarrow> history \<Rightarrow> string list" where
  "ready_names env es =
     concat (map (\<lambda>e. map Node_Name (filter (common_IsK8sNodeIsReady env) (nodes_listed e))) es)"

definition two_ready :: "env \<Rightarrow> history \<Rightarrow> bool" where
  "two_ready env es = (2 \<le> length (remdups (ready_names env es)))"

text \<open>
  A response of the inventory that lets the worker go on: a cluster of kind add-hosts, or
  a list of the hosts of role master with at least two at stage done.
\<close>

definition shows_masters_ready :: "call \<times> resp \<Rightarrow> bool" where
  "shows_masters_ready e =
     (case snd e of
        R_cluster r \<Rightarrow>
          (case r of Inl err \<Rightarrow> False
           | Inr c \<Rightarrow> StringValue (Kind c) = ClusterKindAddHostsCluster)
      | R_hosts r \<Rightarrow>
          (case r of Inl err \<Rightarrow> False
           | Inr hosts \<Rightarrow>
               fst e = Inv_ListsHostsForRole HostRoleMaster \<and> numDone hosts \<ge> minMasterNodes)
      | _ \<Rightarrow> False)"

definition masters_ready :: "history \<Rightarrow> bool" where
  "masters_ready es = list_ex shows_masters_ready es"

text \<open>
  An event that shows a host at stage done: a progress report of stage done, or a
  response of the inventory that lists a host whose current stage is done.
\<close>

definition shows_done :: "call \<times> resp \<Rightarrow> bool" where
  "shows_done e =
     (is_report HostStageDone (fst e) \<or>
      (case snd e of
         R_hosts r \<Rightarrow>
           (case r of Inl err \<Rightarrow> False
            | Inr hosts \<Rightarrow> list_ex (\<lambda>h. Progress_CurrentStage h = HostStageDone) hosts)
       | R_hostsmap r \<Rightarrow>
           (case r of Inl err \<Rightarrow> False
            | Inr m \<Rightarrow>
                list_ex (\<lambda>entry. Progress_CurrentStage (HostData_Host (snd entry)) = HostStageDone) m)
       | _ \<Rightarrow> False))"

text \<open>
  Modelled from the spec: the effect of the cluster API client's patch and un-patch of the
  control-plane replicas, which is not part of the installer file ("patch replicas to 2
  before the wait and restore to 3 after").  \<open>controlPlaneReplicas es n\<close> is the replica
  count after the calls of \<open>es\<close>, from the count \<open>n\<close>.
\<close>

fun controlPlaneReplicas :: "history \<Rightarrow> int \<Rightarrow> int" where
  "controlPlaneReplicas [] n = n"
| "controlPlaneReplicas (e # es) n =
     controlPlaneReplicas es
       (if e = (K8s_PatchControlPlaneReplicas, R_err None) then 2
        else if e = (K8s_UnPatchControlPlaneReplicas, R_err None) then 3
        else n)"


text \<open>
  The calls of the wait for the master nodes: the \<^verbatim>\<open>select\<close>, the fetch of the inventory
  hosts, the list of the master nodes and the report of stage joined.
\<close>

definition is_master_wait :: "call \<Rightarrow> bool" where
  "is_master_wait c =
     (case c of
        Select chans \<Rightarrow> True
      | Inv_GetEnabledHostsNamesHosts \<Rightarrow> True
      | K8s_ListMasterNodes \<Rightarrow> True
      | Inv_UpdateHostInstallProgress infraEnvID hostID newStage info \<Rightarrow> newStage = HostStageJoined
      | _ \<Rightarrow> False)"

section \<open>Example environments and configurations\<close>

text \<open>
  An environment in which every call succeeds, and the configuration of a master host.
  The examples below are variants of them.
\<close>

definition env_ok :: env where
  "env_ok =
     \<lparr>err_r = (\<lambda>h c. None),
      str_r = (\<lambda>h c. if c = K8s_GetNetworkType then ovnKubernetes else []),
      bool_r = (\<lambda>h c. False),
      int_r = (\<lambda>h c. 3),
      nat_r = (\<lambda>h c. 0),
      strs_r = (\<lambda>h c. []),
      cluster_r = (\<lambda>h c. \<lparr>Kind = None\<rparr>),
      hosts_r = (\<lambda>h c. []),
      hostsmap_r = (\<lambda>h c. []),
      nodes_r = (\<lambda>h c. []),
      events_r = (\<lambda>h c. []),
      config_r = (\<lambda>h c. \<lparr>Ignition = \<lparr>Config = \<lparr>Merge = [], Replace = None\<rparr>, Version = ''3.1.0''\<rparr>,
                           Storage_Files = [], Systemd_Units = [], Passwd_Users = []\<rparr>),
      pod_r = (\<lambda>h c. None),
      version_NewVersion = (\<lambda>s. Inl ''Malformed version''),
      version_LessThan = (\<lambda>a b. False),
      filepath_Join = (\<lambda>a b. a @ ''/'' @ b),
      common_IsK8sNodeIsReady = (\<lambda>n. (''Ready'', ''True'') \<in> set (Node_Conditions n)),
      common_BuildHostsMapIPAddressBased = (\<lambda>m. m),
      common_HostMatchByNameOrIPAddress = (\<lambda>n m known. map_of m (Node_Name n)),
      common_AssistedControllerIsReadyEvent = ''AssistedControllerIsReady'',
      common_AssistedControllerPrefix = ''assisted-installer-controller'',
      sshDir = ''/root/.ssh'',
      sshKeyPath = ''/root/.ssh/id_rsa'',
      sshPubKeyPath = ''/root/.ssh/id_rsa.pub'',
      assistedInstallerSshManifest = ''/opt/openshift/openshift/99-assisted-installer-ssh.yaml'',
      sshManifestTmpl = ''/opt/openshift/ssh-manifest.tmpl'',
      EmptyIgnitionConfig = \<lparr>Merge = [], Replace = None\<rparr>\<rparr>"

definition config_0 :: Config where
  "config_0 =
     \<lparr>Role = HostRoleMaster, ClusterID = ''cluster-id'', InfraEnvID = ''infra-env-id'',
      HostID = ''host-id'', Device = ''/dev/sda'', URL = ''https://assisted-service.com:80'',
      OpenshiftVersion = ''4.10'', MCOImage = ''quay.io/mco:latest'', HighAvailabilityMode = ''Full'',
      InstallerArgs = [], DisksToFormat = [], PullSecretToken = ''secret'',
      SkipCertVerification = False, CACertPath = [], SkipInstallationDiskCleanup = False,
      DryRunEnabled = False, FakeRebootMarkerPath = []\<rparr>"

text \<open>
  An environment in which every call fails, and one in which a call fails until it has
  been made twice.
\<close>

definition env_fail :: env where
  "env_fail = env_ok\<lparr>err_r := (\<lambda>h c. Some ''boom'')\<rparr>"

definition env_flaky :: env where
  "env_flaky =
     env_ok\<lparr>err_r := (\<lambda>h c. if length (invocations c h) < 2 then Some ''input/output error'' else None)\<rparr>"

text \<open>
  The equations of the two functions below are recursive under a condition only; they are
  unfolded by hand.
\<close>

declare Retry_from.simps [simp del]
declare string_of_nat.simps [simp del]

subsection \<open>Single-node ignition: paths and examples\<close>







subsection \<open>A cluster with two ready master nodes\<close>

text \<open>
  The versions of the example clusters, as the go-version library parses and orders them.
\<close>

definition version_of :: "string \<Rightarrow> error + Version" where
  "version_of s =
     (if s = ''4.6'' then Inr \<lparr>segments = [4, 6, 0], pre = [], metadata = []\<rparr>
      else if s = ''4.7'' then Inr \<lparr>segments = [4, 7, 0], pre = [], metadata = []\<rparr>
      else if s = ''4.10'' then Inr \<lparr>segments = [4, 10, 0], pre = [], metadata = []\<rparr>
      else Inl (''Malformed version: '' @ s))"

fun segments_less :: "int list \<Rightarrow> int list \<Rightarrow> bool" where
  "segments_less (x # xs) (y # ys) = (x < y \<or> (x = y \<and> segments_less xs ys))"
| "segments_less xs ys = False"

text \<open>The index of the first ticker (or \<^verbatim>\<open>time.After\<close>) among the cases of a \<^verbatim>\<open>select\<close>.\<close>

fun first_tick :: "chan list \<Rightarrow> nat" where
  "first_tick [] = 0"
| "first_tick (c # cs) =
     (case c of Ch_Ticker d \<Rightarrow> 0 | Ch_After d \<Rightarrow> 0 | _ \<Rightarrow> Suc (first_tick cs))"

text \<open>
  An environment in which every call succeeds, every \<^verbatim>\<open>select\<close> takes its first ticker,
  the cluster has network type OVNKubernetes and three control-plane replicas, the cluster
  API lists two master nodes that are ready, the inventory knows their hosts (at stage
  configuring) and the bootstrap host, and the controller has sent its ready event.
\<close>

definition master_nodes :: "Node list" where
  "master_nodes =
     [\<lparr>Node_Name = ''master-0'', Node_Conditions = [(''Ready'', ''True'')], Node_Addresses = [''192.168.1.10'']\<rparr>,
      \<lparr>Node_Name = ''master-1'', Node_Conditions = [(''Ready'', ''True'')], Node_Addresses = [''192.168.1.11'']\<rparr>]"

definition inventory_hosts :: "(string \<times> HostData) list" where
  "inventory_hosts =
     [(''bootstrap'',
       \<lparr>HostData_Host = \<lparr>Host_ID = ''host-id'', Host_InfraEnvID = ''infra-env-id'',
                          Progress_CurrentStage = HostStageWaitingForControlPlane\<rparr>,
        HostData_IPs = [''192.168.1.9'']\<rparr>),
      (''master-0'',
       \<lparr>HostData_Host = \<lparr>Host_ID = ''host-0'', Host_InfraEnvID = ''infra-env-id'',
                          Progress_CurrentStage = HostStageConfiguring\<rparr>,
        HostData_IPs = [''192.168.1.10'']\<rparr>),
      (''master-1'',
       \<lparr>HostData_Host = \<lparr>Host_ID = ''host-1'', Host_InfraEnvID = ''infra-env-id'',
                          Progress_CurrentStage = HostStageConfiguring\<rparr>,
        HostData_IPs = [''192.168.1.11'']\<rparr>)]"

definition env_cluster :: env where
  "env_cluster =
     env_ok\<lparr>nat_r := (\<lambda>h c. case c of Select chans \<Rightarrow> first_tick chans | _ \<Rightarrow> 0),
            hostsmap_r := (\<lambda>h c. inventory_hosts),
            nodes_r := (\<lambda>h c. master_nodes),
            events_r := (\<lambda>h c. [\<lparr>Event_UID = ''uid-1'', Event_Name = ''AssistedControllerIsReady'',
                                   Event_Message = []\<rparr>]),
            version_NewVersion := version_of,
            version_LessThan := (\<lambda>a b. segments_less (segments a) (segments b))\<rparr>"

definition config_46 :: Config where
  "config_46 = config_0\<lparr>Role := HostRoleBootstrap, OpenshiftVersion := ''4.6''\<rparr>"

definition config_bootstrap :: Config where
  "config_bootstrap = config_0\<lparr>Role := HostRoleBootstrap\<rparr>"

section \<open>Properties\<close>

subsection \<open>Operator status\<close>

text \<open>
  C2: the derived status is to be available only when the list has an Available condition
  with status True and neither a Degraded nor a Progressing condition with status True.
  The code returns at the first condition with status True that it knows: on the
  conditions Available=True, Degraded=True of the test helper it returns available, and on
  the same two conditions in the other order it returns failed.
\<close>

theorem C2_available_despite_degraded:
  "fst (ClusterOperatorConditionsToMonitoredOperatorStatus available_and_degraded) = OperatorStatusAvailable
   \<and> is_true OperatorDegraded (available_and_degraded ! 1)
   \<and> fst (ClusterOperatorConditionsToMonitoredOperatorStatus (rev available_and_degraded)) = OperatorStatusFailed"
  by (simp add: available_and_degraded_def is_true_def OperatorAvailable_def OperatorDegraded_def
      OperatorProgressing_def)

text \<open>
  C9: with an empty host id \<^verbatim>\<open>UpdateHostInstallProgress\<close> makes no call at all (the history
  is unchanged); with a non-empty host id it makes exactly one call, the progress update
  of the inventory client.
\<close>

theorem C9_UpdateHostInstallProgress_calls:
  "(HostID i = [] \<longrightarrow> UpdateHostInstallProgress env i newStage info h = h) \<and>
   (HostID i \<noteq> [] \<longrightarrow>
      (\<exists>r. UpdateHostInstallProgress env i newStage info h =
         h @ [(Inv_UpdateHostInstallProgress (InfraEnvID i) (HostID i) newStage info, R_err r)]))"
  by (simp add: UpdateHostInstallProgress_def call_err_def Let_def)

theorem C9_UpdateHostInstallProgress_calls_witness:
  "UpdateHostInstallProgress env_ok (config_0\<lparr>HostID := []\<rparr>) HostStageInstalling ''master'' [] = []
   \<and> (\<exists>r. UpdateHostInstallProgress env_ok config_0 HostStageInstalling ''master'' [] =
         [(Inv_UpdateHostInstallProgress ''infra-env-id'' ''host-id'' HostStageInstalling ''master'', R_err r)])"
  using C9_UpdateHostInstallProgress_calls [of "config_0\<lparr>HostID := []\<rparr>" env_ok HostStageInstalling "''master''" "[]"]
    C9_UpdateHostInstallProgress_calls [of config_0 env_ok HostStageInstalling "''master''" "[]"]
  by (simp add: config_0_def)

subsection \<open>Retry and the image write\<close>

lemma invocations_append: "invocations c (xs @ ys) = invocations c xs @ invocations c ys"
  by (induction xs) (auto split: resp.splits)

lemma Retry_from_trace:
  "Retry_from i a d (call_err env c) h = (r, h') \<Longrightarrow>
     \<exists>es. h' = h @ es \<and> invocations c es \<noteq> [] \<and>
       (\<forall>x \<in> set (butlast (invocations c es)). x \<noteq> None) \<and>
       (r = None \<longleftrightarrow> last (invocations c es) = None) \<and>
       (\<forall>e. last (invocations c es) = Some e \<longrightarrow> r = Some (Retry_error a e)) \<and>
       snd (last es) = R_err (last (invocations c es)) \<and>
       int (length (invocations c es)) \<le> max 1 (wrap64 (a - 1) - i + 1) \<and>
       (r \<noteq> None \<longrightarrow> int (length (invocations c es)) = max 1 (wrap64 (a - 1) - i + 1))"
proof (induction i a d "call_err env c" h arbitrary: r h' rule: Retry_from.induct)
  case (1 i attempts sleep h)
  show ?case
  proof (cases "err_r env h c")
    case None
    with "1.prems" have "r = None" "h' = h @ [(c, R_err None)]"
      by (auto simp: Retry_from.simps[of i] call_err_def Let_def split: if_splits)
    then show ?thesis by (intro exI[of _ "[(c, R_err None)]"]) simp
  next
    case (Some e)
    show ?thesis
    proof (cases "i < wrap64 (attempts - 1)")
      case False
      with Some "1.prems" have "r = Some (Retry_error attempts e)" "h' = h @ [(c, R_err (Some e))]"
        by (auto simp: Retry_from.simps[of i] call_err_def Let_def Retry_error_def split: if_splits)
      with False show ?thesis by (intro exI[of _ "[(c, R_err (Some e))]"]) simp
    next
      case True
      let ?h1 = "h @ [(c, R_err (Some e))]"
      let ?h2 = "call_unit (Time_Sleep sleep) ?h1"
      have st: "call_err env c h = (Some e, ?h1)" using Some by (simp add: call_err_def Let_def)
      have rec: "Retry_from (i + 1) attempts sleep (call_err env c) ?h2 = (r, h')"
        using "1.prems" True st by (simp add: Retry_from.simps[of i])
      have "\<exists>es. h' = ?h2 @ es \<and> invocations c es \<noteq> [] \<and>
       (\<forall>x \<in> set (butlast (invocations c es)). x \<noteq> None) \<and>
       (r = None \<longleftrightarrow> last (invocations c es) = None) \<and>
       (\<forall>e. last (invocations c es) = Some e \<longrightarrow> r = Some (Retry_error attempts e)) \<and>
       snd (last es) = R_err (last (invocations c es)) \<and>
       int (length (invocations c es)) \<le> max 1 (wrap64 (attempts - 1) - (i + 1) + 1) \<and>
       (r \<noteq> None \<longrightarrow> int (length (invocations c es)) = max 1 (wrap64 (attempts - 1) - (i + 1) + 1))"
        by (rule "1.hyps"[OF True st[symmetric] refl rec])
      then obtain es where es: "h' = ?h2 @ es" "invocations c es \<noteq> []"
       "(\<forall>x \<in> set (butlast (invocations c es)). x \<noteq> None)"
       "(r = None \<longleftrightarrow> last (invocations c es) = None)"
       "(\<forall>e. last (invocations c es) = Some e \<longrightarrow> r = Some (Retry_error attempts e))"
       "snd (last es) = R_err (last (invocations c es))"
       "int (length (invocations c es)) \<le> max 1 (wrap64 (attempts - 1) - (i + 1) + 1)"
       "(r \<noteq> None \<longrightarrow> int (length (invocations c es)) = max 1 (wrap64 (attempts - 1) - (i + 1) + 1))"
        by (elim exE conjE)
      define rs where "rs = invocations c es"
      let ?es = "[(c, R_err (Some e)), (Time_Sleep sleep, R_unit)] @ es"
      have ne: "es \<noteq> []" using es(2) by auto
      have inv: "invocations c ?es = Some e # rs" by (simp add: invocations_append rs_def)
      have rsne: "rs \<noteq> []" using es(2) by (simp add: rs_def)
      have c1: "h' = h @ ?es" using es(1) by (simp add: call_unit_def)
      have c2: "Some e # rs \<noteq> []" by simp
      have c3: "\<forall>x \<in> set (butlast (Some e # rs)). x \<noteq> None" using es(3) rsne by (simp add: rs_def)
      have c4: "(r = None) = (last (Some e # rs) = None)" using es(4) rsne by (simp add: rs_def)
      have c5: "\<forall>e'. last (Some e # rs) = Some e' \<longrightarrow> r = Some (Retry_error attempts e')"
        using es(5) rsne by (simp add: rs_def)
      have c6: "snd (last ?es) = R_err (last (Some e # rs))" using es(6) rsne ne by (simp add: rs_def)
      have c7: "int (length (Some e # rs)) \<le> max 1 (wrap64 (attempts - 1) - i + 1)"
        using es(7) True by (simp add: rs_def)
      have c8: "r \<noteq> None \<longrightarrow> int (length (Some e # rs)) = max 1 (wrap64 (attempts - 1) - i + 1)"
        using es(8) True by (simp add: rs_def)
      show ?thesis
        apply (rule exI[of _ ?es])
        apply (simp only: inv)
        using c1 c2 c3 c4 c5 c6 c7 c8 apply blast
        done
    qed
  qed
qed


text \<open>
  C10: \<^verbatim>\<open>Retry\<close> invokes its function argument at least once for every value of
  \<^verbatim>\<open>attempts\<close>; every invocation but the last returned an error; the result is nil
  exactly when the last invocation returned nil; when the last invocation returned the
  error \<open>e\<close>, the result is the wrapped error, nothing follows that invocation, and it
  is the last attempt of the loop.  The function argument is any call \<open>c\<close> of the
  environment that returns an error.
\<close>

theorem C10_Retry_invokes_at_least_once:
  "Retry attempts sleep (call_err env c) h = (r, h') \<Longrightarrow>
     \<exists>es. h' = h @ es \<and> invocations c es \<noteq> [] \<and>
       (\<forall>x \<in> set (butlast (invocations c es)). x \<noteq> None) \<and>
       (r = None \<longleftrightarrow> last (invocations c es) = None) \<and>
       (\<forall>e. last (invocations c es) = Some e \<longrightarrow> r = Some (Retry_error attempts e)) \<and>
       snd (last es) = R_err (last (invocations c es)) \<and>
       (r \<noteq> None \<longrightarrow> int (length (invocations c es)) = max 1 (wrap64 (attempts - 1) + 1))"
proof -
  assume "Retry attempts sleep (call_err env c) h = (r, h')"
  then have "Retry_from 0 attempts sleep (call_err env c) h = (r, h')"
    by (simp add: Retry_def)
  from Retry_from_trace [OF this]
  obtain es where es: "h' = h @ es" "invocations c es \<noteq> []"
       "(\<forall>x \<in> set (butlast (invocations c es)). x \<noteq> None)"
       "(r = None \<longleftrightarrow> last (invocations c es) = None)"
       "(\<forall>e. last (invocations c es) = Some e \<longrightarrow> r = Some (Retry_error attempts e))"
       "snd (last es) = R_err (last (invocations c es))"
       "(r \<noteq> None \<longrightarrow> int (length (invocations c es)) = max 1 (wrap64 (attempts - 1) - 0 + 1))"
    by (elim exE conjE)
  from es(7) have "(r \<noteq> None \<longrightarrow> int (length (invocations c es)) = max 1 (wrap64 (attempts - 1) + 1))"
    by simp
  with es(1-6) show ?thesis
    by (intro exI[of _ es] conjI)
qed

lemma Retry_0_fail:
  "Retry 0 Second (call_err env_fail Ops_PrepareController) [] =
     (Some ''failed after 0 attempts, last error: boom'',
      [(Ops_PrepareController, R_err (Some ''boom''))])"
  by (simp add: Retry_def Retry_from.simps[of 0] wrap64_def call_err_def env_fail_def Let_def
      string_of_int_def string_of_nat.simps[of 0])

theorem C10_Retry_invokes_at_least_once_witness:
  "Retry 0 Second (call_err env_fail Ops_PrepareController) [] =
     (Some ''failed after 0 attempts, last error: boom'',
      [(Ops_PrepareController, R_err (Some ''boom''))])
   \<and> Retry_error 0 ''boom'' = ''failed after 0 attempts, last error: boom''
   \<and> invocations Ops_PrepareController [(Ops_PrepareController, R_err (Some ''boom''))] = [Some ''boom'']
   \<and> max 1 (wrap64 (0 - 1) + 1) = 1"
  using C10_Retry_invokes_at_least_once [OF Retry_0_fail] Retry_0_fail
  by (simp add: wrap64_def Retry_error_def string_of_int_def string_of_nat.simps[of 0])

lemma Retry_3:
  "Retry 3 d (call_err env c) h =
     (case err_r env h c of
        None \<Rightarrow> (None, h @ [(c, R_err None)])
      | Some e1 \<Rightarrow>
          (case err_r env (h @ [(c, R_err (Some e1)), (Time_Sleep d, R_unit)]) c of
             None \<Rightarrow> (None, h @ [(c, R_err (Some e1)), (Time_Sleep d, R_unit), (c, R_err None)])
           | Some e2 \<Rightarrow>
               (case err_r env (h @ [(c, R_err (Some e1)), (Time_Sleep d, R_unit),
                                     (c, R_err (Some e2)), (Time_Sleep d, R_unit)]) c of
                  None \<Rightarrow>
                    (None, h @ [(c, R_err (Some e1)), (Time_Sleep d, R_unit),
                                (c, R_err (Some e2)), (Time_Sleep d, R_unit), (c, R_err None)])
                | Some e3 \<Rightarrow>
                    (Some (Retry_error 3 e3),
                     h @ [(c, R_err (Some e1)), (Time_Sleep d, R_unit),
                          (c, R_err (Some e2)), (Time_Sleep d, R_unit), (c, R_err (Some e3))]))))"
  by (simp add: Retry_def Retry_from.simps[of 0] Retry_from.simps[of 1] Retry_from.simps[of 2]
      wrap64_def call_err_def call_unit_def Let_def Retry_error_def split: option.splits)


text \<open>
  C6: \<^verbatim>\<open>writeImageToDisk\<close> reports the stage and then invokes the image write at most three
  times, with a sleep of one second between two attempts: it returns nil after the first
  attempt that succeeds, and it returns an error, that of \<^verbatim>\<open>Retry\<close> for 3 attempts, only
  after three failed attempts.
\<close>

theorem C6_writeImageToDisk_three_attempts:
  "writeImageToDisk env i ignitionPath h = (r, h') \<Longrightarrow>
     (let w = Ops_WriteImageToDisk ignitionPath (Device i) (InstallerArgs i);
          gap = (Time_Sleep Second, R_unit);
          h0 = UpdateHostInstallProgress env i HostStageWritingImageToDisk [] h
      in
      (r = None \<and> h' = h0 @ [(w, R_err None)]) \<or>
      (\<exists>e1. r = None \<and> h' = h0 @ [(w, R_err (Some e1)), gap, (w, R_err None)]) \<or>
      (\<exists>e1 e2. r = None \<and>
         h' = h0 @ [(w, R_err (Some e1)), gap, (w, R_err (Some e2)), gap, (w, R_err None)]) \<or>
      (\<exists>e1 e2 e3. r = Some (Retry_error 3 e3) \<and>
         h' = h0 @ [(w, R_err (Some e1)), gap, (w, R_err (Some e2)), gap, (w, R_err (Some e3))]))"
  by (auto simp: writeImageToDisk_def Let_def Retry_3 split: option.splits)

lemma writeImageToDisk_flaky:
  "writeImageToDisk env_flaky (config_0\<lparr>HostID := []\<rparr>) ''/opt/install-dir/master.ign'' [] =
     (None,
      [(Ops_WriteImageToDisk ''/opt/install-dir/master.ign'' ''/dev/sda'' [], R_err (Some ''input/output error'')),
       (Time_Sleep 1000000000, R_unit),
       (Ops_WriteImageToDisk ''/opt/install-dir/master.ign'' ''/dev/sda'' [], R_err (Some ''input/output error'')),
       (Time_Sleep 1000000000, R_unit),
       (Ops_WriteImageToDisk ''/opt/install-dir/master.ign'' ''/dev/sda'' [], R_err None)])"
  by (simp add: writeImageToDisk_def Let_def Retry_3 env_flaky_def config_0_def
      UpdateHostInstallProgress_def Second_def)

theorem C6_writeImageToDisk_three_attempts_witness:
  "writeImageToDisk env_flaky (config_0\<lparr>HostID := []\<rparr>) ''/opt/install-dir/master.ign'' [] =
     (None,
      [(Ops_WriteImageToDisk ''/opt/install-dir/master.ign'' ''/dev/sda'' [], R_err (Some ''input/output error'')),
       (Time_Sleep 1000000000, R_unit),
       (Ops_WriteImageToDisk ''/opt/install-dir/master.ign'' ''/dev/sda'' [], R_err (Some ''input/output error'')),
       (Time_Sleep 1000000000, R_unit),
       (Ops_WriteImageToDisk ''/opt/install-dir/master.ign'' ''/dev/sda'' [], R_err None)])"
  using C6_writeImageToDisk_three_attempts [OF writeImageToDisk_flaky] writeImageToDisk_flaky
  by simp

subsection \<open>Single-node ignition\<close>






subsection \<open>Histories only grow\<close>

lemma adds_refl: "adds P h h"
  by (simp add: adds_def)

lemma adds_append: "adds P h (h @ es) \<longleftrightarrow> (\<forall>e \<in> set es. P (fst e))"
  by (simp add: adds_def)

lemma adds_trans: "adds P h h1 \<Longrightarrow> adds P h1 h2 \<Longrightarrow> adds P h h2"
  by (auto simp: adds_def)

lemma adds_mono: "adds P h h' \<Longrightarrow> (\<And>c. P c \<Longrightarrow> Q c) \<Longrightarrow> adds Q h h'"
  by (auto simp: adds_def)

lemma call_err_ext: "call_err env c h = (r, h1) \<Longrightarrow> h1 = h @ [(c, R_err r)]"
  by (auto simp: call_err_def Let_def)

lemma call_str_ext: "call_str env c h = (r, h1) \<Longrightarrow> h1 = h @ [(c, R_str r)]"
  by (auto simp: call_str_def Let_def)

lemma call_bool_ext: "call_bool env c h = (r, h1) \<Longrightarrow> h1 = h @ [(c, R_bool r)]"
  by (auto simp: call_bool_def Let_def)

lemma call_str_err_ext: "call_str_err env c h = ((s, r), h1) \<Longrightarrow> h1 = h @ [(c, R_str_err s r)]"
  by (auto simp: call_str_err_def Let_def)

lemma call_str_res_ext: "call_str_res env c h = (r, h1) \<Longrightarrow> h1 = h @ [(c, R_str_res r)]"
  by (auto simp: call_str_res_def Let_def)

lemma call_int_res_ext: "call_int_res env c h = (r, h1) \<Longrightarrow> h1 = h @ [(c, R_int_res r)]"
  by (auto simp: call_int_res_def Let_def)

lemma call_strs_res_ext: "call_strs_res env c h = (r, h1) \<Longrightarrow> h1 = h @ [(c, R_strs_res r)]"
  by (auto simp: call_strs_res_def Let_def)

lemma call_cluster_ext: "call_cluster env c h = (r, h1) \<Longrightarrow> h1 = h @ [(c, R_cluster r)]"
  by (auto simp: call_cluster_def Let_def)

lemma call_hosts_ext: "call_hosts env c h = (r, h1) \<Longrightarrow> h1 = h @ [(c, R_hosts r)]"
  by (auto simp: call_hosts_def Let_def)

lemma call_hostsmap_ext: "call_hostsmap env c h = (r, h1) \<Longrightarrow> h1 = h @ [(c, R_hostsmap r)]"
  by (auto simp: call_hostsmap_def Let_def)

lemma call_nodes_ext: "call_nodes env c h = (r, h1) \<Longrightarrow> h1 = h @ [(c, R_nodes r)]"
  by (auto simp: call_nodes_def Let_def)

lemma call_events_ext: "call_events env c h = (r, h1) \<Longrightarrow> h1 = h @ [(c, R_events r)]"
  by (auto simp: call_events_def Let_def)

lemma call_config_ext: "call_config env c h = (r, h1) \<Longrightarrow> h1 = h @ [(c, R_config r)]"
  by (auto simp: call_config_def Let_def)

lemma call_pod_ext: "call_pod env c h = (r, h1) \<Longrightarrow> h1 = h @ [(c, R_pod r)]"
  by (auto simp: call_pod_def Let_def)

lemma select_case_ext: "select_case env chans h = (c, h1) \<Longrightarrow> h1 = h @ [(Select chans, R_chan c)]"
  by (auto simp: select_case_def Let_def)

lemmas call_exts = call_err_ext call_str_ext call_bool_ext call_str_err_ext call_str_res_ext
  call_int_res_ext call_strs_res_ext call_cluster_ext call_hosts_ext call_hostsmap_ext
  call_nodes_ext call_events_ext call_config_ext call_pod_ext select_case_ext

lemmas kinds = quiet_def is_reboot_def is_report_def is_patch_def

lemma UpdateHostInstallProgress_adds:
  "P (Inv_UpdateHostInstallProgress (InfraEnvID i) (HostID i) newStage info) \<Longrightarrow>
     adds P h (UpdateHostInstallProgress env i newStage info h)"
  by (simp add: UpdateHostInstallProgress_def call_err_def Let_def adds_refl adds_append)

lemma FormatDisks_range_adds: "adds quiet h (FormatDisks_range env disks h)"
proof (induction disks arbitrary: h)
  case Nil
  show ?case by (simp add: adds_refl)
next
  case (Cons d disks)
  have "adds quiet h (h @ [(Ops_FormatDisk d, R_err (err_r env h (Ops_FormatDisk d)))])"
    by (simp add: adds_append kinds)
  from adds_trans [OF this Cons.IH] show ?case
    by (simp add: call_err_def Let_def)
qed

lemma cleanupDevice_adds: "cleanupDevice env device h = (r, h') \<Longrightarrow> adds quiet h h'"
  unfolding cleanupDevice_def Let_def
  by (auto split: prod.splits if_splits dest!: call_exts simp: adds_append kinds)

lemma cleanupDevices_range_adds: "cleanupDevices_range env devices h = (r, h') \<Longrightarrow> adds quiet h h'"
proof (induction devices arbitrary: h)
  case Nil
  then show ?case by (simp add: adds_refl)
next
  case (Cons d devices)
  obtain e h1 where c: "cleanupDevice env d h = (e, h1)" by (cases "cleanupDevice env d h")
  note a = cleanupDevice_adds [OF c]
  show ?case
  proof (cases e)
    case None
    with Cons.prems c have "cleanupDevices_range env devices h1 = (r, h')" by simp
    from adds_trans [OF a Cons.IH [OF this]] show ?thesis .
  next
    case (Some x)
    with Cons.prems c have "h' = h1" by simp
    with a show ?thesis by simp
  qed
qed

lemma cleanupInstallDevice_adds: "cleanupInstallDevice env i h = (r, h') \<Longrightarrow> adds quiet h h'"
  unfolding cleanupInstallDevice_def Let_def
  by (auto split: prod.splits if_splits sum.splits
      dest!: call_exts cleanupDevice_adds [unfolded adds_def] cleanupDevices_range_adds [unfolded adds_def]
      simp: adds_append adds_refl kinds)

lemma getFileFromService_adds: "getFileFromService env filename h = (r, h') \<Longrightarrow> adds quiet h h'"
  unfolding getFileFromService_def Let_def
  by (auto split: prod.splits dest!: call_exts simp: adds_append kinds)

lemma downloadHostIgnition_adds: "downloadHostIgnition env i h = (r, h') \<Longrightarrow> adds quiet h h'"
  unfolding downloadHostIgnition_def Let_def
  by (auto split: prod.splits dest!: call_exts simp: adds_append kinds)

lemma updateSingleNodeIgnition_adds: "updateSingleNodeIgnition env i p h = (r, h') \<Longrightarrow> adds quiet h h'"
  unfolding updateSingleNodeIgnition_def Let_def
  by (auto split: prod.splits if_splits sum.splits
      dest!: call_exts downloadHostIgnition_adds [unfolded adds_def]
      simp: adds_append adds_refl kinds)

lemma Retry_from_adds:
  "(\<And>h r h1. f h = (r, h1) \<Longrightarrow> adds quiet h h1) \<Longrightarrow>
     Retry_from k attempts sleep f h = (r, h') \<Longrightarrow> adds quiet h h'"
proof (induction k attempts sleep f h arbitrary: r h' rule: Retry_from.induct)
  case (1 k attempts sleep f h)
  obtain e h1 where c: "f h = (e, h1)" by (cases "f h")
  have a: "adds quiet h h1" using "1.prems"(1) [OF c] .
  show ?case
  proof (cases e)
    case None
    with "1.prems"(2) c have "h' = h1" by (simp add: Retry_from.simps [of k] split: if_splits)
    with a show ?thesis by simp
  next
    case (Some x)
    show ?thesis
    proof (cases "k < wrap64 (attempts - 1)")
      case False
      with Some "1.prems"(2) c have "h' = h1" by (simp add: Retry_from.simps [of k])
      with a show ?thesis by simp
    next
      case True
      with Some "1.prems"(2) c
      have rec: "Retry_from (k + 1) attempts sleep f (call_unit (Time_Sleep sleep) h1) = (r, h')"
        by (simp add: Retry_from.simps [of k])
      have s: "adds quiet h1 (call_unit (Time_Sleep sleep) h1)"
        by (simp add: call_unit_def adds_append kinds)
      from "1.IH" [OF True c [symmetric] Some "1.prems"(1) rec]
      have "adds quiet (call_unit (Time_Sleep sleep) h1) h'" .
      from adds_trans [OF adds_trans [OF a s] this] show ?thesis .
    qed
  qed
qed

lemma writeImageToDisk_adds: "writeImageToDisk env i p h = (r, h') \<Longrightarrow> adds quiet h h'"
proof -
  assume a: "writeImageToDisk env i p h = (r, h')"
  let ?h1 = "UpdateHostInstallProgress env i HostStageWritingImageToDisk [] h"
  obtain e h2 where c: "Retry 3 Second (call_err env (Ops_WriteImageToDisk p (Device i) (InstallerArgs i))) ?h1 = (e, h2)"
    by (cases "Retry 3 Second (call_err env (Ops_WriteImageToDisk p (Device i) (InstallerArgs i))) ?h1")
  have "h' = h2" using a c by (simp add: writeImageToDisk_def Let_def split: if_splits)
  moreover have "adds quiet h ?h1" by (rule UpdateHostInstallProgress_adds) (simp add: kinds)
  moreover have "adds quiet ?h1 h2"
  proof (rule Retry_from_adds [OF _ c [unfolded Retry_def]])
    fix h r h1 assume "call_err env (Ops_WriteImageToDisk p (Device i) (InstallerArgs i)) h = (r, h1)"
    then show "adds quiet h h1" by (auto dest!: call_exts simp: adds_append kinds)
  qed
  ultimately show ?thesis using adds_trans by blast
qed

lemma extractIgnitionToFS_for_adds:
  "extractIgnitionToFS_for env mco p n err h = (r, h') \<Longrightarrow> adds quiet h h'"
proof (induction n arbitrary: err h)
  case 0
  then show ?case by (simp add: adds_refl)
next
  case (Suc n)
  from Suc.prems show ?case
    by (auto simp: Let_def adds_append kinds split: prod.splits if_splits
        dest!: call_exts Suc.IH [unfolded adds_def])
qed

lemma extractIgnitionToFS_adds: "extractIgnitionToFS env i p h = (r, h') \<Longrightarrow> adds quiet h h'"
  unfolding extractIgnitionToFS_def
  by (auto split: if_splits dest!: extractIgnitionToFS_for_adds simp: adds_refl)

lemma generateSshKeyPair_adds: "generateSshKeyPair env i h = (r, h') \<Longrightarrow> adds quiet h h'"
  unfolding generateSshKeyPair_def Let_def
  by (auto split: prod.splits if_splits dest!: call_exts simp: adds_append adds_refl kinds)

lemma checkLocalhostName_adds: "checkLocalhostName env i h = (r, h') \<Longrightarrow> adds quiet h h'"
  unfolding checkLocalhostName_def Let_def
  by (auto split: prod.splits if_splits sum.splits dest!: call_exts simp: adds_append adds_refl kinds)

lemma startBootstrap_services_adds:
  "startBootstrap_services env services h = (r, h') \<Longrightarrow> adds quiet h h'"
proof (induction services arbitrary: h)
  case Nil
  then show ?case by (simp add: adds_refl)
next
  case (Cons s services)
  from Cons.prems show ?case
    by (auto simp: Let_def adds_append kinds split: prod.splits if_splits
        dest!: call_exts Cons.IH [unfolded adds_def])
qed

lemma startBootstrap_ssh_adds: "startBootstrap_ssh env i h = (r, h') \<Longrightarrow> adds quiet h h'"
  unfolding startBootstrap_ssh_def Let_def
  by (auto split: prod.splits if_splits
      dest!: call_exts generateSshKeyPair_adds [unfolded adds_def]
      simp: adds_append adds_refl kinds)

lemma startBootstrap_adds: "startBootstrap env i h = (r, h') \<Longrightarrow> adds quiet h h'"
  unfolding startBootstrap_def Let_def
  by (auto split: prod.splits if_splits
      dest!: call_exts getFileFromService_adds [unfolded adds_def]
        extractIgnitionToFS_adds [unfolded adds_def] startBootstrap_ssh_adds [unfolded adds_def]
        checkLocalhostName_adds [unfolded adds_def] startBootstrap_services_adds [unfolded adds_def]
      simp: adds_append adds_refl kinds)

subsection \<open>The waiting loops\<close>

lemma WaitForPredicateWithTimer_rule:
  assumes major: "WaitForPredicateWithTimer env ctx timeout interval predicate s h = Some y"
    and "I s h"
    and "\<And>s h c h1. I s h \<Longrightarrow>
      select_case env (ctx_chans ctx @ [Ch_Timer timeout, Ch_Ticker interval]) h = (c, h1) \<Longrightarrow> I s h1"
    and "\<And>s h b s1 h1. I s h \<Longrightarrow> predicate s h = ((b, s1), h1) \<Longrightarrow> I s1 h1 \<and> (b \<longrightarrow> Q s1 h1)"
  shows "I (snd (fst y)) (snd y) \<and>
   ((fst (fst y) = None \<and> Q (snd (fst y)) (snd y)) \<or>
    (fst (fst y) \<noteq> None \<and>
     (\<exists>h0. fst (select_case env (ctx_chans ctx @ [Ch_Timer timeout, Ch_Ticker interval]) h0)
            \<in> {Ch_CtxDone, Ch_Timer timeout})))"
  using assms(2-)
proof (induction env ctx timeout interval predicate s h y rule: WaitForPredicateWithTimer.raw_induct)
  case (1 W env ctx timeout interval predicate s h y)
  let ?chans = "ctx_chans ctx @ [Ch_Timer timeout, Ch_Ticker interval]"
  obtain c h1 where sel: "select_case env ?chans h = (c, h1)" by (cases "select_case env ?chans h")
  have I1: "I s h1" using "1.prems"(2) [OF "1.prems"(1) sel] .
  show ?case
  proof (cases "c = Ch_CtxDone \<or> c = Ch_Timer timeout")
    case True
    then have "y = ((Some ctx_Err, s), h1) \<or> y = ((Some ''timed out'', s), h1)"
      using "1.hyps" sel by (auto simp: Let_def)
    moreover have "fst (select_case env ?chans h) \<in> {Ch_CtxDone, Ch_Timer timeout}"
      using True sel by auto
    ultimately show ?thesis using I1 by (auto simp: ctx_Err_def)
  next
    case False
    obtain b s1 h2 where p: "predicate s h1 = ((b, s1), h2)"
      by (metis surj_pair)
    note st = "1.prems"(3) [OF I1 p]
    show ?thesis
    proof (cases b)
      case True
      with False "1.hyps" sel p have "y = ((None, s1), h2)" by (auto simp: Let_def)
      with st True show ?thesis by simp
    next
      case b: False
      with False "1.hyps" sel p have "W env ctx timeout interval predicate s1 h2 = Some y"
        by (auto simp: Let_def)
      from st have I2: "I s1 h2" by simp
      show ?thesis by (rule "1.IH" [OF \<open>W env ctx timeout interval predicate s1 h2 = Some y\<close> I2 "1.prems"(2) "1.prems"(3)])
    qed
  qed
qed (rule major)

lemma waitForBootkube_for_adds:
  assumes major: "waitForBootkube_for env ctx h = Some h'"
  shows "adds quiet h h'"
proof (induction env ctx h h' rule: waitForBootkube_for.raw_induct)
  case (1 W env ctx h h')
  from "1.hyps" show ?case
    by (auto simp: Let_def adds_append kinds split: prod.splits if_splits
        dest!: call_exts "1.IH" [unfolded adds_def])
qed (rule major)

lemma waitForBootkube_adds: "waitForBootkube env i ctx h = Some h' \<Longrightarrow> adds quiet h h'"
proof -
  assume "waitForBootkube env i ctx h = Some h'"
  then have "adds quiet (UpdateHostInstallProgress env i HostStageWaitingForBootkube [] h) h'"
    unfolding waitForBootkube_def by (rule waitForBootkube_for_adds)
  moreover have "adds quiet h (UpdateHostInstallProgress env i HostStageWaitingForBootkube [] h)"
    by (rule UpdateHostInstallProgress_adds) (simp add: kinds)
  ultimately show ?thesis using adds_trans by blast
qed

lemma uploadControllerLogs_adds: "adds quiet h (uploadControllerLogs env i h)"
  by (auto simp: uploadControllerLogs_def call_pod_def call_err_def Let_def adds_append kinds
      split: option.splits)

lemma wasControllerReadyEventSet_adds:
  "wasControllerReadyEventSet env previousEvents h = (r, h') \<Longrightarrow> adds quiet h h'"
  unfolding wasControllerReadyEventSet_def Let_def
  by (auto split: prod.splits sum.splits dest!: call_exts simp: adds_append kinds)

lemma waitForController_for_adds:
  assumes major: "waitForController_for env i events h = Some y"
  shows "adds quiet h (snd y)"
proof (induction env i events h y rule: waitForController_for.raw_induct)
  case (1 W env i events h y)
  let ?chans = "[Ch_Ticker generalWaitInterval, Ch_Ticker (5 * Minute)]"
  obtain c h1 where sel: "select_case env ?chans h = (c, h1)" by (cases "select_case env ?chans h")
  have a1: "adds quiet h h1" using sel by (auto dest!: call_exts simp: adds_append kinds)
  show ?case
  proof (cases "c = Ch_Ticker generalWaitInterval")
    case True
    obtain ready events1 h2 where w: "wasControllerReadyEventSet env events h1 = ((ready, events1), h2)"
      by (metis surj_pair)
    note a2 = wasControllerReadyEventSet_adds [OF w]
    show ?thesis
    proof (cases ready)
      case True
      let ?h3 = "call_unit (Inv_ClusterLogProgressReport (ClusterID i) LogsStateRequested) h2"
      from True \<open>c = Ch_Ticker generalWaitInterval\<close> "1.hyps" sel w
      have "snd y = uploadControllerLogs env i ?h3" by (auto simp: Let_def)
      moreover have "adds quiet h2 ?h3" by (simp add: call_unit_def adds_append kinds)
      moreover have "adds quiet ?h3 (uploadControllerLogs env i ?h3)" by (rule uploadControllerLogs_adds)
      ultimately show ?thesis using a1 a2 adds_trans by metis
    next
      case False
      with \<open>c = Ch_Ticker generalWaitInterval\<close> "1.hyps" sel w
      have "W env i events1 h2 = Some y" by (auto simp: Let_def)
      from "1.IH" [OF this] a1 a2 adds_trans show ?thesis by metis
    qed
  next
    case False
    with "1.hyps" sel have "W env i events (uploadControllerLogs env i h1) = Some y"
      by (auto simp: Let_def)
    from "1.IH" [OF this] a1 uploadControllerLogs_adds [of h1 env i] adds_trans show ?thesis by metis
  qed
qed (rule major)

lemma waitForController_adds: "waitForController env i h = Some (r, h') \<Longrightarrow> adds quiet h h'"
proof -
  assume "waitForController env i h = Some (r, h')"
  from waitForController_for_adds [OF this [unfolded waitForController_def]]
  have "adds quiet (UpdateHostInstallProgress env i HostStageWaitingForController
          ''waiting for controller pod ready event'' h) h'" by simp
  moreover have "adds quiet h (UpdateHostInstallProgress env i HostStageWaitingForController
          ''waiting for controller pod ready event'' h)"
    by (rule UpdateHostInstallProgress_adds) (simp add: kinds)
  ultimately show ?thesis using adds_trans by blast
qed

lemma waitForControlPlane_etcd_adds:
  "waitForControlPlane_etcd env i ctx h = Some (r, h') \<Longrightarrow> adds quiet h h'"
  unfolding waitForControlPlane_etcd_def
  by (auto split: option.splits if_splits
      dest!: waitForBootkube_adds waitForController_adds intro: adds_trans)

subsection \<open>The control-plane replicas patch\<close>

lemma waitForNetworkType_adds:
  assumes w: "waitForNetworkType env h = Some (err, h')"
    and sel: "\<And>chans. P (Select chans)" and nt: "P K8s_GetNetworkType"
  shows "adds P h h'"
proof -
  let ?p = "\<lambda>(s :: unit) h.
                let (r, h1) = call_str_res env K8s_GetNetworkType h in
                (case r of Inl err \<Rightarrow> ((False, s), h1) | Inr nt \<Rightarrow> ((True, s), h1))"
  from w obtain y where y: "WaitForPredicateWithTimer env NeverDone waitForeverTimeout (5 * Second) ?p () h = Some y"
    and h': "h' = snd y"
    by (auto simp: waitForNetworkType_def WaitForPredicate_def WaitForPredicateWithContext_def
        split: option.splits)
  have "(\<lambda>s hc. adds P h hc) (snd (fst y)) (snd y) \<and>
   ((fst (fst y) = None \<and> (\<lambda>s hc. True) (snd (fst y)) (snd y)) \<or>
    (fst (fst y) \<noteq> None \<and>
     (\<exists>h0. fst (select_case env (ctx_chans NeverDone @ [Ch_Timer waitForeverTimeout, Ch_Ticker (5 * Second)]) h0)
            \<in> {Ch_CtxDone, Ch_Timer waitForeverTimeout})))"
  proof (rule WaitForPredicateWithTimer_rule [OF y])
    show "adds P h h" by (rule adds_refl)
  next
    fix s :: unit and hc c h1
    assume "adds P h hc"
      and "select_case env (ctx_chans NeverDone @ [Ch_Timer waitForeverTimeout, Ch_Ticker (5 * Second)]) hc = (c, h1)"
    then show "adds P h h1" using sel by (auto dest!: call_exts simp: adds_def)
  next
    fix s :: unit and hc b s1 h1
    assume "adds P h hc" and "?p s hc = ((b, s1), h1)"
    then show "adds P h h1 \<and> (b \<longrightarrow> True)" using nt
      by (auto dest!: call_exts simp: adds_def Let_def split: prod.splits sum.splits)
  qed
  then show ?thesis using h' by simp
qed

lemma shouldControlPlaneReplicasPatchApplied_cases:
  "shouldControlPlaneReplicasPatchApplied env i h = Some ((b, err), h1) \<Longrightarrow>
     (h1 = h \<and> \<not> b \<and> IsVersionLessThan47 env (OpenshiftVersion i) \<noteq> (True, None)) \<or>
     (IsVersionLessThan47 env (OpenshiftVersion i) = (True, None) \<and>
      (\<exists>werr hw. waitForNetworkType env h = Some (werr, hw) \<and>
         ((h1 = hw \<and> \<not> b) \<or>
          (\<exists>r2. h1 = hw @ [(K8s_GetNetworkType, R_str_res r2)] \<and> \<not> b) \<or>
          (\<exists>r3. h1 = hw @ [(K8s_GetNetworkType, R_str_res (Inr ovnKubernetes)),
                             (K8s_GetControlPlaneReplicas, R_int_res r3)] \<and>
                (b \<longleftrightarrow> r3 = Inr numMasterNodes) \<and> (b \<longrightarrow> err = None)))))"
  unfolding shouldControlPlaneReplicasPatchApplied_def Let_def
  by (auto split: prod.splits if_splits option.splits sum.splits dest!: call_exts)

lemma shouldControlPlaneReplicasPatchApplied_trace:
  assumes s: "shouldControlPlaneReplicasPatchApplied env i h = Some ((b, err), h1)"
  shows "adds quiet h h1 \<and> (b \<longrightarrow> err = None) \<and>
    (b \<longleftrightarrow> IsVersionLessThan47 env (OpenshiftVersion i) = (True, None) \<and>
       (\<exists>pre. h1 = h @ pre @ [(K8s_GetNetworkType, R_str_res (Inr ovnKubernetes)),
                              (K8s_GetControlPlaneReplicas, R_int_res (Inr numMasterNodes))]))"
proof -
  let ?P = "\<lambda>c. quiet c \<and> c \<noteq> K8s_GetControlPlaneReplicas"
  let ?goal = "\<lambda>h1. \<exists>pre. h1 = h @ pre @ [(K8s_GetNetworkType, R_str_res (Inr ovnKubernetes)),
                              (K8s_GetControlPlaneReplicas, R_int_res (Inr numMasterNodes))]"
  from shouldControlPlaneReplicasPatchApplied_cases [OF s]
  consider (same) "h1 = h" "\<not> b" "IsVersionLessThan47 env (OpenshiftVersion i) \<noteq> (True, None)"
    | (wait) werr hw where "IsVersionLessThan47 env (OpenshiftVersion i) = (True, None)"
        "waitForNetworkType env h = Some (werr, hw)" "h1 = hw" "\<not> b"
    | (nt) werr hw r2 where "IsVersionLessThan47 env (OpenshiftVersion i) = (True, None)"
        "waitForNetworkType env h = Some (werr, hw)" "h1 = hw @ [(K8s_GetNetworkType, R_str_res r2)]" "\<not> b"
    | (cpr) werr hw r3 where "IsVersionLessThan47 env (OpenshiftVersion i) = (True, None)"
        "waitForNetworkType env h = Some (werr, hw)"
        "h1 = hw @ [(K8s_GetNetworkType, R_str_res (Inr ovnKubernetes)), (K8s_GetControlPlaneReplicas, R_int_res r3)]"
        "b \<longleftrightarrow> r3 = Inr numMasterNodes" "b \<longrightarrow> err = None"
    by blast
  then show ?thesis
  proof cases
    case same
    then show ?thesis by (simp add: adds_refl)
  next
    case wait
    have "adds ?P h hw" by (rule waitForNetworkType_adds [OF wait(2)]) (simp_all add: kinds)
    then obtain ew where ew: "hw = h @ ew" "\<forall>e \<in> set ew. ?P (fst e)" by (auto simp: adds_def)
    have "\<not> ?goal h1"
    proof
      assume "?goal h1"
      then obtain pre where "h @ ew = h @ pre @ [(K8s_GetNetworkType, R_str_res (Inr ovnKubernetes)),
                              (K8s_GetControlPlaneReplicas, R_int_res (Inr numMasterNodes))]"
        using wait(3) ew(1) by auto
      then have "(K8s_GetControlPlaneReplicas, R_int_res (Inr numMasterNodes)) \<in> set ew" by simp
      with ew(2) show False by auto
    qed
    moreover have "adds quiet h h1" using ew wait(3) by (simp add: adds_append)
    ultimately show ?thesis using wait(4) by simp
  next
    case nt
    have "adds ?P h hw" by (rule waitForNetworkType_adds [OF nt(2)]) (simp_all add: kinds)
    then obtain ew where ew: "hw = h @ ew" "\<forall>e \<in> set ew. ?P (fst e)" by (auto simp: adds_def)
    have "\<not> ?goal h1"
    proof
      assume "?goal h1"
      then obtain pre where "h @ ew @ [(K8s_GetNetworkType, R_str_res r2)] =
          h @ (pre @ [(K8s_GetNetworkType, R_str_res (Inr ovnKubernetes))]) @
              [(K8s_GetControlPlaneReplicas, R_int_res (Inr numMasterNodes))]"
        using nt(3) ew(1) by auto
      then show False by simp
    qed
    moreover have "adds quiet h h1" using ew nt(3) by (simp add: adds_append kinds)
    ultimately show ?thesis using nt(4) by simp
  next
    case cpr
    have "adds ?P h hw" by (rule waitForNetworkType_adds [OF cpr(2)]) (simp_all add: kinds)
    then obtain ew where ew: "hw = h @ ew" "\<forall>e \<in> set ew. ?P (fst e)" by (auto simp: adds_def)
    have h1: "h1 = h @ ew @ [(K8s_GetNetworkType, R_str_res (Inr ovnKubernetes)),
                             (K8s_GetControlPlaneReplicas, R_int_res r3)]"
      using cpr(3) ew(1) by simp
    have "?goal h1 \<longleftrightarrow> r3 = Inr numMasterNodes"
    proof
      assume "?goal h1"
      then obtain pre where "h @ (ew @ [(K8s_GetNetworkType, R_str_res (Inr ovnKubernetes))]) @
                             [(K8s_GetControlPlaneReplicas, R_int_res r3)] =
          h @ (pre @ [(K8s_GetNetworkType, R_str_res (Inr ovnKubernetes))]) @
              [(K8s_GetControlPlaneReplicas, R_int_res (Inr numMasterNodes))]"
        using h1 by auto
      then show "r3 = Inr numMasterNodes" by simp
    next
      assume "r3 = Inr numMasterNodes"
      with h1 show "?goal h1" by blast
    qed
    moreover have "adds quiet h h1" using ew h1 by (simp add: adds_append kinds)
    ultimately show ?thesis using cpr(1,4,5) by simp
  qed
qed

subsection \<open>Waiting for the master nodes\<close>

lemma is_master_wait_quiet: "is_master_wait c \<Longrightarrow> quiet c \<and> c \<noteq> K8s_GetControlPlaneReplicas"
  by (cases c) (simp_all add: is_master_wait_def kinds)

lemma ready_names_append: "ready_names env (xs @ ys) = ready_names env xs @ ready_names env ys"
  by (simp add: ready_names_def)

lemma ready_names_Nil: "ready_names env [] = []"
  by (simp add: ready_names_def)

lemma ready_names_single:
  "ready_names env [e] = map Node_Name (filter (common_IsK8sNodeIsReady env) (nodes_listed e))"
  by (simp add: ready_names_def)

lemma nodes_listed_other: "c \<noteq> K8s_ListMasterNodes \<Longrightarrow> nodes_listed (c, r) = []"
  by (simp add: nodes_listed_def)

lemma nodes_listed_nodes: "nodes_listed (K8s_ListMasterNodes, R_nodes (Inr nodes)) = nodes"
  by (simp add: nodes_listed_def)

lemma nodes_listed_error: "nodes_listed (K8s_ListMasterNodes, R_nodes (Inl err)) = []"
  by (simp add: nodes_listed_def)

lemma ready_names_other: "c \<noteq> K8s_ListMasterNodes \<Longrightarrow> ready_names env [(c, r)] = []"
  by (simp add: ready_names_single nodes_listed_other)

lemma ready_names_nodes:
  "ready_names env [(K8s_ListMasterNodes, R_nodes (Inr nodes))] =
     map Node_Name (filter (common_IsK8sNodeIsReady env) nodes)"
  by (simp add: ready_names_single nodes_listed_nodes)

lemma ready_names_Cons: "ready_names env (e # es) = ready_names env [e] @ ready_names env es"
  by (simp add: ready_names_def)

lemma ready_names_Cons_other:
  "c \<noteq> K8s_ListMasterNodes \<Longrightarrow> ready_names env ((c, r) # es) = ready_names env es"
  using ready_names_Cons [of env "(c, r)" es] by (simp add: ready_names_other)

lemma ready_names_Cons_nodes:
  "ready_names env ((K8s_ListMasterNodes, R_nodes (Inr nodes)) # es) =
     map Node_Name (filter (common_IsK8sNodeIsReady env) nodes) @ ready_names env es"
  using ready_names_Cons [of env "(K8s_ListMasterNodes, R_nodes (Inr nodes))" es]
  by (simp add: ready_names_nodes)

lemmas ready_names_simps = ready_names_append ready_names_Nil ready_names_Cons_other ready_names_Cons_nodes

lemma ready_names_none:
  "\<forall>e \<in> set es. fst e \<noteq> K8s_ListMasterNodes \<Longrightarrow> ready_names env es = []"
proof (induction es)
  case Nil
  show ?case by (rule ready_names_Nil)
next
  case (Cons e es)
  obtain c r where e: "e = (c, r)" by (cases e)
  with Cons.prems have "c \<noteq> K8s_ListMasterNodes" by simp
  then have "ready_names env [e] = []" using e by (simp add: ready_names_other)
  moreover have "ready_names env es = []" using Cons by simp
  ultimately show ?case by (simp add: ready_names_Cons [of env e es])
qed

lemma updateReadyMasters_range_inv:
  "updateReadyMasters_range env nodes rm m known h = ((err, rm'), h') \<Longrightarrow> distinct rm \<Longrightarrow>
     adds is_master_wait h h' \<and> distinct rm' \<and>
     set rm' \<subseteq> set rm \<union> set (map Node_Name (filter (common_IsK8sNodeIsReady env) nodes))"
proof (induction nodes arbitrary: rm h)
  case Nil
  then show ?case by (simp add: adds_refl)
next
  case (Cons node rest)
  show ?case
  proof (cases "common_IsK8sNodeIsReady env node \<and> Node_Name node \<notin> set rm")
    case False
    with Cons.prems have "updateReadyMasters_range env rest rm m known h = ((err, rm'), h')" by auto
    from Cons.IH [OF this Cons.prems(2)] show ?thesis by auto
  next
    case True
    let ?rm1 = "rm @ [Node_Name node]"
    have d1: "distinct ?rm1" using True Cons.prems(2) by simp
    show ?thesis
    proof (cases "common_HostMatchByNameOrIPAddress env node m known")
      case None
      with True Cons.prems(1) have "rm' = ?rm1" "h' = h" by auto
      with d1 True show ?thesis by (auto simp: adds_refl)
    next
      case (Some host)
      let ?c = "Inv_UpdateHostInstallProgress (Host_InfraEnvID (HostData_Host host))
                     (Host_ID (HostData_Host host)) HostStageJoined []"
      obtain e h1 where c: "call_err env ?c h = (e, h1)" by (cases "call_err env ?c h")
      then have a1: "adds is_master_wait h h1" by (auto dest!: call_exts simp: adds_append is_master_wait_def)
      from True Some Cons.prems(1) c
      have "updateReadyMasters_range env rest ?rm1 m known h1 = ((err, rm'), h')" by (simp add: Let_def)
      from Cons.IH [OF this d1] a1 True show ?thesis by (auto intro: adds_trans)
    qed
  qed
qed

lemma getInventoryHostsMap_adds:
  "getInventoryHostsMap env i hostsMap h = (r, h') \<Longrightarrow> adds (\<lambda>c. is_master_wait c \<and> c \<noteq> K8s_ListMasterNodes) h h'"
  unfolding getInventoryHostsMap_def Let_def
  by (auto split: prod.splits option.splits sum.splits dest!: call_exts simp: adds_append adds_refl is_master_wait_def)

lemma sufficientMasterNodes_inv:
  assumes s: "sufficientMasterNodes env i minNodes (rm, m) h = ((b, rm', m'), h')" and d: "distinct rm"
  shows "\<exists>es. h' = h @ es \<and> (\<forall>e \<in> set es. is_master_wait (fst e)) \<and> distinct rm' \<and>
           set rm' \<subseteq> set rm \<union> set (ready_names env es) \<and> (b \<longrightarrow> minNodes \<le> int (length rm'))"
proof -
  obtain m1 e1 h1 where g: "getInventoryHostsMap env i m h = ((m1, e1), h1)"
    by (metis surj_pair)
  from getInventoryHostsMap_adds [OF g] obtain es1 where
    es1: "h1 = h @ es1" "\<forall>e \<in> set es1. is_master_wait (fst e) \<and> fst e \<noteq> K8s_ListMasterNodes"
    by (auto simp: adds_def)
  have r1: "ready_names env es1 = []" using es1(2) by (intro ready_names_none) simp
  show ?thesis
  proof (cases e1)
    case (Some x)
    with s g have "h' = h1" "rm' = rm" by (auto simp: sufficientMasterNodes_def)
    moreover from Some s g have "\<not> b" by (auto simp: sufficientMasterNodes_def)
    ultimately show ?thesis using es1 d by (intro exI[of _ es1]) auto
  next
    case None
    obtain r h2 where l: "call_nodes env K8s_ListMasterNodes h1 = (r, h2)"
      by (cases "call_nodes env K8s_ListMasterNodes h1")
    then have h2: "h2 = h1 @ [(K8s_ListMasterNodes, R_nodes r)]" by (auto dest!: call_exts)
    show ?thesis
    proof (cases r)
      case (Inl x)
      with None s g l have "h' = h2" "rm' = rm" "\<not> b" by (auto simp: sufficientMasterNodes_def)
      then show ?thesis using es1 d h2
        by (intro exI[of _ "es1 @ [(K8s_ListMasterNodes, R_nodes r)]"]) (auto simp: is_master_wait_def)
    next
      case (Inr nodes)
      obtain e3 rm3 h3 where u: "updateReadyMasters env nodes rm (map_entries m1) h2 = ((e3, rm3), h3)"
        by (metis surj_pair)
      from updateReadyMasters_range_inv [OF u [unfolded updateReadyMasters_def Let_def] d]
      have a3: "adds is_master_wait h2 h3" and d3: "distinct rm3"
        and s3: "set rm3 \<subseteq> set rm \<union> set (map Node_Name (filter (common_IsK8sNodeIsReady env) nodes))"
        by auto
      from a3 obtain es3 where es3: "h3 = h2 @ es3" "\<forall>e \<in> set es3. is_master_wait (fst e)" by (auto simp: adds_def)
      from None Inr s g l u have res: "h' = h3" "rm' = rm3" "b \<longrightarrow> minNodes \<le> int (length rm3)"
        by (auto simp: sufficientMasterNodes_def split: if_splits)
      let ?es = "es1 @ [(K8s_ListMasterNodes, R_nodes (Inr nodes))] @ es3"
      have "h' = h @ ?es" using res(1) es3(1) h2 es1(1) Inr by simp
      moreover have "\<forall>e \<in> set ?es. is_master_wait (fst e)" using es1(2) es3(2) by (auto simp: is_master_wait_def)
      moreover have "set rm' \<subseteq> set rm \<union> set (ready_names env ?es)"
        using s3 res(2) by (auto simp: ready_names_simps r1)
      ultimately show ?thesis using d3 res by (intro exI[of _ ?es]) simp
    qed
  qed
qed

lemma waitForMasterNodes_for_inv:
  assumes major: "waitForMasterNodes_for env i ctx minNodes s h = Some y"
  shows "distinct (fst s) \<Longrightarrow>
     \<exists>es. snd y = h @ es \<and> (\<forall>e \<in> set es. is_master_wait (fst e)) \<and> distinct (fst (fst y)) \<and>
        set (fst (fst y)) \<subseteq> set (fst s) \<union> set (ready_names env es) \<and>
        (ctx = NeverDone \<longrightarrow> minNodes \<le> int (length (fst (fst y))))"
proof (induction env i ctx minNodes s h y rule: waitForMasterNodes_for.raw_induct)
  case (1 W env i ctx minNodes s h y)
  let ?chans = "ctx_chans ctx @ [Ch_After generalWaitInterval]"
  obtain c h1 where sel: "select_case env ?chans h = (c, h1)" by (cases "select_case env ?chans h")
  then have h1: "h1 = h @ [(Select ?chans, R_chan c)]" by (auto dest!: call_exts)
  have r0: "ready_names env [(Select ?chans, R_chan c)] = []" by (simp add: ready_names_other)
  show ?case
  proof (cases "c = Ch_CtxDone")
    case True
    with "1.hyps" sel have y: "y = (s, h1)" by (auto simp: Let_def)
    have "ctx \<noteq> NeverDone"
    proof
      assume "ctx = NeverDone"
      with sel True show False by (auto simp: select_case_def ctx_chans_def Let_def)
    qed
    with y h1 "1.prems" show ?thesis
      by (intro exI[of _ "[(Select ?chans, R_chan c)]"]) (auto simp: is_master_wait_def)
  next
    case False
    obtain rm m where s: "s = (rm, m)" by (cases s)
    obtain b rm1 m1 h2 where su: "sufficientMasterNodes env i minNodes (rm, m) h1 = ((b, rm1, m1), h2)"
      by (metis surj_pair)
    from sufficientMasterNodes_inv [OF su] "1.prems" s
    obtain es1 where es1: "h2 = h1 @ es1" "\<forall>e \<in> set es1. is_master_wait (fst e)" "distinct rm1"
      "set rm1 \<subseteq> set rm \<union> set (ready_names env es1)" "b \<longrightarrow> minNodes \<le> int (length rm1)"
      by auto
    show ?thesis
    proof (cases b)
      case True
      with False "1.hyps" sel su s have y: "y = ((rm1, m1), h2)" by (auto simp: Let_def)
      let ?es = "[(Select ?chans, R_chan c)] @ es1"
      have "snd y = h @ ?es" using y es1(1) h1 by simp
      moreover have "\<forall>e \<in> set ?es. is_master_wait (fst e)" using es1(2) by (auto simp: is_master_wait_def)
      moreover have "set (fst (fst y)) \<subseteq> set (fst s) \<union> set (ready_names env ?es)"
        using es1(4) y s by (auto simp: ready_names_simps)
      ultimately show ?thesis using y es1(3,5) True by (intro exI[of _ ?es]) simp
    next
      case b: False
      with False "1.hyps" sel su s have "W env i ctx minNodes (rm1, m1) h2 = Some y" by (auto simp: Let_def)
      from "1.IH" [OF this] es1(3)
      obtain es2 where es2: "snd y = h2 @ es2" "\<forall>e \<in> set es2. is_master_wait (fst e)" "distinct (fst (fst y))"
        "set (fst (fst y)) \<subseteq> set rm1 \<union> set (ready_names env es2)"
        "ctx = NeverDone \<longrightarrow> minNodes \<le> int (length (fst (fst y)))"
        by auto
      let ?es = "[(Select ?chans, R_chan c)] @ es1 @ es2"
      have "snd y = h @ ?es" using es2(1) es1(1) h1 by simp
      moreover have "\<forall>e \<in> set ?es. is_master_wait (fst e)" using es1(2) es2(2) by (auto simp: is_master_wait_def)
      moreover have "set (fst (fst y)) \<subseteq> set (fst s) \<union> set (ready_names env ?es)"
        using es1(4) es2(4) s by (auto simp: ready_names_simps)
      ultimately show ?thesis using es2(3,5) by (intro exI[of _ ?es]) simp
    qed
  qed
qed (rule major)

lemma two_ready_mono: "two_ready env es \<Longrightarrow> two_ready env (a @ es @ b)"
proof -
  assume t: "two_ready env es"
  have "set (ready_names env es) \<subseteq> set (ready_names env (a @ es @ b))"
    by (auto simp: ready_names_append)
  then have "card (set (ready_names env es)) \<le> card (set (ready_names env (a @ es @ b)))"
    by (intro card_mono) auto
  with t show ?thesis by (simp add: two_ready_def length_remdups_card_conv)
qed

lemma waitForMasterNodes_trace:
  assumes w: "waitForMasterNodes env i ctx minMasterNodes h = Some h'"
  shows "\<exists>es. h' = h @ es \<and> (\<forall>e \<in> set es. is_master_wait (fst e)) \<and> (ctx = NeverDone \<longrightarrow> two_ready env es)"
proof -
  from w obtain st where y: "waitForMasterNodes_for env i ctx minMasterNodes ([], None) h = Some (st, h')"
    by (auto simp: waitForMasterNodes_def split: option.splits)
  from waitForMasterNodes_for_inv [OF y]
  obtain es where es: "h' = h @ es" "\<forall>e \<in> set es. is_master_wait (fst e)" "distinct (fst st)"
    "set (fst st) \<subseteq> set (ready_names env es)"
    "ctx = NeverDone \<longrightarrow> minMasterNodes \<le> int (length (fst st))"
    by auto
  have "ctx = NeverDone \<longrightarrow> two_ready env es"
  proof
    assume "ctx = NeverDone"
    with es(5) have "2 \<le> length (fst st)" by (simp add: minMasterNodes_def)
    also have "length (fst st) = card (set (fst st))" using es(3) by (simp add: distinct_card)
    also have "\<dots> \<le> card (set (ready_names env es))" using es(4) by (intro card_mono) auto
    finally show "two_ready env es" by (simp add: two_ready_def length_remdups_card_conv)
  qed
  with es(1,2) show ?thesis by blast
qed

end
